theory Spec2Isabelle
  imports Main
begin

section \<open>JavaScript strings\<close>

text \<open>
  Strings are \<open>char list\<close>s holding UTF-8: an ASCII character is one \<open>char\<close>, any other
  code point is two to four. \<open>trim\<close> strips, at both ends, every code point of ECMAScript's
  WhiteSpace and LineTerminator productions: TAB, LF, VT, FF, CR and SP (one byte),
  U+00A0 (two bytes), and U+1680, U+2000 to U+200A, U+2028, U+2029, U+202F, U+205F,
  U+3000 and U+FEFF (three bytes). \<open>toLowerCase\<close> maps \<open>A\<close>..\<open>Z\<close> and leaves every other
  byte alone; the code compares its result only with ASCII words.
\<close>

definition isWhiteSpace :: "char \<Rightarrow> bool" where
  "isWhiteSpace c =
     (c = CHR '' '' \<or> c = CHR 0x09 \<or> c = CHR 0x0A \<or> c = CHR 0x0B \<or> c = CHR 0x0C \<or> c = CHR 0x0D)"

text \<open>U+00A0 is \<open>C2 A0\<close>.\<close>

definition isWhiteSpace2 :: "char \<Rightarrow> char \<Rightarrow> bool" where
  "isWhiteSpace2 a b = (a = CHR 0xC2 \<and> b = CHR 0xA0)"

text \<open>U+1680 is \<open>E1 9A 80\<close>; U+2000 to U+200A, U+2028, U+2029 and U+202F are \<open>E2 80\<close>
  followed by \<open>80\<close> to \<open>8A\<close>, \<open>A8\<close>, \<open>A9\<close> and \<open>AF\<close>; U+205F is \<open>E2 81 9F\<close>; U+3000 is
  \<open>E3 80 80\<close>; U+FEFF is \<open>EF BB BF\<close>.\<close>

definition isWhiteSpace3 :: "char \<Rightarrow> char \<Rightarrow> char \<Rightarrow> bool" where
  "isWhiteSpace3 a b c =
     ((a = CHR 0xE1 \<and> b = CHR 0x9A \<and> c = CHR 0x80)
      \<or> (a = CHR 0xE2 \<and> b = CHR 0x80
          \<and> c \<in> set [CHR 0x80, CHR 0x81, CHR 0x82, CHR 0x83, CHR 0x84, CHR 0x85, CHR 0x86,
                      CHR 0x87, CHR 0x88, CHR 0x89, CHR 0x8A, CHR 0xA8, CHR 0xA9, CHR 0xAF])
      \<or> (a = CHR 0xE2 \<and> b = CHR 0x81 \<and> c = CHR 0x9F)
      \<or> (a = CHR 0xE3 \<and> b = CHR 0x80 \<and> c = CHR 0x80)
      \<or> (a = CHR 0xEF \<and> b = CHR 0xBB \<and> c = CHR 0xBF))"

text \<open>\<open>trimStart\<close> drops white space code points from the front.\<close>

fun trimStart :: "string \<Rightarrow> string" where
  "trimStart (a # b # c # s) =
     (if isWhiteSpace a then trimStart (b # c # s)
      else if isWhiteSpace2 a b then trimStart (c # s)
      else if isWhiteSpace3 a b c then trimStart s
      else a # b # c # s)"
| "trimStart [a, b] =
     (if isWhiteSpace a then trimStart [b] else if isWhiteSpace2 a b then [] else [a, b])"
| "trimStart [a] = (if isWhiteSpace a then [] else [a])"
| "trimStart [] = []"

text \<open>\<open>trimEndRev\<close> does the same from the back, on the reversed string: its argument
  starts with the last byte.\<close>

fun trimEndRev :: "string \<Rightarrow> string" where
  "trimEndRev (c # b # a # s) =
     (if isWhiteSpace c then trimEndRev (b # a # s)
      else if isWhiteSpace2 b c then trimEndRev (a # s)
      else if isWhiteSpace3 a b c then trimEndRev s
      else c # b # a # s)"
| "trimEndRev [c, b] =
     (if isWhiteSpace c then trimEndRev [b] else if isWhiteSpace2 b c then [] else [c, b])"
| "trimEndRev [c] = (if isWhiteSpace c then [] else [c])"
| "trimEndRev [] = []"

definition trim :: "string \<Rightarrow> string" where
  "trim s = rev (trimEndRev (rev (trimStart s)))"

definition lowerChar :: "char \<Rightarrow> char" where
  "lowerChar c =
     (let n = (of_char c :: nat) in if 65 \<le> n \<and> n \<le> 90 then char_of (n + 32) else c)"

definition upperChar :: "char \<Rightarrow> char" where
  "upperChar c =
     (let n = (of_char c :: nat) in if 97 \<le> n \<and> n \<le> 122 then char_of (n - 32) else c)"

definition toLowerCase :: "string \<Rightarrow> string" where
  "toLowerCase s = map lowerChar s"

fun startsWith :: "string \<Rightarrow> string \<Rightarrow> bool" where
  "startsWith s [] = True"
| "startsWith [] (p # ps) = False"
| "startsWith (c # cs) (p # ps) = (c = p \<and> startsWith cs ps)"

definition endsWith :: "string \<Rightarrow> string \<Rightarrow> bool" where
  "endsWith s p = startsWith (rev s) (rev p)"

fun includes_str :: "string \<Rightarrow> string \<Rightarrow> bool" where
  "includes_str [] p = (p = [])"
| "includes_str (c # cs) p = (startsWith (c # cs) p \<or> includes_str cs p)"

text \<open>\<open>provider.charAt(0).toUpperCase() + provider.slice(1)\<close>\<close>

fun capitalize :: "string \<Rightarrow> string" where
  "capitalize [] = []"
| "capitalize (c # cs) = upperChar c # cs"

definition digitChar :: "nat \<Rightarrow> char" where
  "digitChar d =
     (if d = 0 then CHR ''0'' else if d = 1 then CHR ''1'' else if d = 2 then CHR ''2''
      else if d = 3 then CHR ''3'' else if d = 4 then CHR ''4'' else if d = 5 then CHR ''5''
      else if d = 6 then CHR ''6'' else if d = 7 then CHR ''7'' else if d = 8 then CHR ''8''
      else CHR ''9'')"

fun digits :: "nat \<Rightarrow> string" where
  "digits n = (if n < 10 then [digitChar n] else digits (n div 10) @ [digitChar (n mod 10)])"

section \<open>JSON values\<close>

text \<open>
  A parsed JSON value. A JavaScript expression that may also be \<open>undefined\<close> has type
  \<open>json option\<close>, with \<open>None\<close> for \<open>undefined\<close>. Numbers are integers: the code only tests
  them for truthiness and prints HTTP statuses.
\<close>

datatype json =
    JNull
  | JBool bool
  | JNum int
  | JStr string
  | JArr "json list"
  | JObj "(string \<times> json) list"

text \<open>Thrown values: \<open>new Error(message)\<close>, a \<open>TypeError\<close> raised by the runtime, and
  the \<open>SyntaxError\<close> of a body that is not JSON.\<close>

datatype exn = Error string | TypeError | SyntaxError

text \<open>\<open>!!v\<close>\<close>

fun truthy :: "json option \<Rightarrow> bool" where
  "truthy None = False"
| "truthy (Some JNull) = False"
| "truthy (Some (JBool b)) = b"
| "truthy (Some (JNum n)) = (n \<noteq> 0)"
| "truthy (Some (JStr s)) = (s \<noteq> [])"
| "truthy (Some (JArr xs)) = True"
| "truthy (Some (JObj kvs)) = True"

text \<open>\<open>v?.k\<close> for the property names the code reads (none of them is a built-in property of
  strings, numbers, booleans or arrays, so only objects answer).\<close>

fun optProp :: "json option \<Rightarrow> string \<Rightarrow> json option" where
  "optProp (Some (JObj kvs)) k = map_of kvs k"
| "optProp v k = None"

text \<open>\<open>v.k\<close>: a \<open>TypeError\<close> on \<open>null\<close> and \<open>undefined\<close>.\<close>

fun getProp :: "json option \<Rightarrow> string \<Rightarrow> exn + json option" where
  "getProp None k = Inl TypeError"
| "getProp (Some JNull) k = Inl TypeError"
| "getProp (Some v) k = Inr (optProp (Some v) k)"

text \<open>\<open>v?.[0]\<close>: the first element of an array, the first character of a string, the
  property \<open>"0"\<close> of an object.\<close>

fun optIndex0 :: "json option \<Rightarrow> json option" where
  "optIndex0 (Some (JArr (x # xs))) = Some x"
| "optIndex0 (Some (JStr (c # cs))) = Some (JStr [c])"
| "optIndex0 (Some (JObj kvs)) = map_of kvs ''0''"
| "optIndex0 v = None"

text \<open>\<open>typeof v === "string"\<close>, \<open>Array.isArray(v)\<close>\<close>

fun isString :: "json option \<Rightarrow> bool" where
  "isString (Some (JStr s)) = True"
| "isString v = False"

fun isArray :: "json option \<Rightarrow> bool" where
  "isArray (Some (JArr xs)) = True"
| "isArray v = False"

fun join :: "string \<Rightarrow> string list \<Rightarrow> string" where
  "join sep [] = []"
| "join sep [x] = x"
| "join sep (x # y # ys) = x @ sep @ join sep (y # ys)"

text \<open>\<open>String(v)\<close>, the message \<open>new Error(v)\<close> gets from a value that is not a string.\<close>

fun toStringJS :: "json \<Rightarrow> string" where
  "toStringJS JNull = ''null''"
| "toStringJS (JBool b) = (if b then ''true'' else ''false'')"
| "toStringJS (JNum n) = (if n < 0 then CHR ''-'' # digits (nat (- n)) else digits (nat n))"
| "toStringJS (JStr s) = s"
| "toStringJS (JArr xs) = join '','' (map (\<lambda>x. if x = JNull then [] else toStringJS x) xs)"
| "toStringJS (JObj kvs) = ''[object Object]''"

section \<open>Token budget\<close>

text \<open>
  \<open>calculateMaxTokens(textLength, minTokens = 100, maxTokens = 2048, multiplier = 2)\<close> in
  \<open>localReasoningBridge.js\<close>:
  \<^verbatim>\<open>return Math.max(minTokens, Math.min(textLength * multiplier, maxTokens));\<close>
\<close>

definition calculateMaxTokens :: "int \<Rightarrow> int \<Rightarrow> int \<Rightarrow> int \<Rightarrow> int" where
  "calculateMaxTokens textLength minTokens maxTokens multiplier =
     max minTokens (min (textLength * multiplier) maxTokens)"

text \<open>The specification's \<open>clamp(x, lo, hi)\<close>: \<open>x\<close> when it lies in the interval, else the
  bound it crossed.\<close>

definition clamp :: "int \<Rightarrow> int \<Rightarrow> int \<Rightarrow> int" where
  "clamp x lo hi = (if x < lo then lo else if hi < x then hi else x)"

section \<open>Model registry: provider resolution\<close>

text \<open>
  \<open>getAllReasoningModels()\<close> flattens the registry data (a JSON file that is not part of
  the sources) into entries with a model id and its provider id; the registry is a
  parameter here, in the order \<open>find\<close> scans it.
\<close>

record ReasoningModelWithProvider =
  model_value :: string
  model_provider :: string

definition getModelProvider ::
  "ReasoningModelWithProvider list \<Rightarrow> string \<Rightarrow> string option \<Rightarrow> bool \<Rightarrow> string" where
  "getModelProvider registry modelId preferredProvider allowLocalFallback =
     (let normalizedPreferred = map_option (\<lambda>p. toLowerCase (trim p)) preferredProvider;
          byModel =
            (case find (\<lambda>m. model_value m = modelId) registry of
               None \<Rightarrow>
                 if includes_str modelId ''claude'' then ''anthropic''
                 else if includes_str modelId ''gemini'' \<and> \<not> includes_str modelId ''gemma'' then ''gemini''
                 else if (includes_str modelId ''gpt-4'' \<or> includes_str modelId ''gpt-5'')
                          \<and> \<not> includes_str modelId ''gpt-oss'' then ''openai''
                 else if includes_str modelId ''qwen/'' \<or> includes_str modelId ''openai/''
                          \<or> includes_str modelId ''llama-3.1-8b-instant''
                          \<or> includes_str modelId ''llama-3.3-'' \<or> includes_str modelId ''mixtral-''
                          \<or> includes_str modelId ''gemma2-'' then ''groq''
                 else if allowLocalFallback
                          \<and> (includes_str modelId ''qwen'' \<or> includes_str modelId ''llama''
                               \<or> includes_str modelId ''mistral''
                               \<or> includes_str modelId ''gpt-oss-20b-mxfp4'') then ''local''
                 else ''openai''
             | Some model \<Rightarrow>
                 if model_provider model = [] then ''openai'' else model_provider model)
      in case normalizedPreferred of
           None \<Rightarrow> byModel
         | Some p \<Rightarrow>
             if p \<noteq> [] \<and> p \<noteq> ''auto'' then (if p = ''custom'' then ''openai'' else p)
             else byModel)"

text \<open>No explicit override: the preferred provider is absent, blank or \<open>"auto"\<close> (the
  negation of \<open>normalizedPreferred && normalizedPreferred !== "auto"\<close>).\<close>

definition noOverride :: "string option \<Rightarrow> bool" where
  "noOverride preferredProvider =
     (case preferredProvider of
        None \<Rightarrow> True
      | Some p \<Rightarrow> toLowerCase (trim p) = [] \<or> toLowerCase (trim p) = ''auto'')"

section \<open>Environment of the reasoning service\<close>

text \<open>
  What \<open>ReasoningService\<close> imports from modules that are not part of the sources
  (\<open>config/constants\<close>, \<open>utils/urlUtils\<close>, \<open>utils/retry\<close>), the built-in JSON codec, and
  what the outside world answers (the key store behind the IPC bridge, the network) are
  fields of one record, so that every result holds for each of their values.
\<close>

datatype dialect = Responses | Chat

fun dialectName :: "dialect \<Rightarrow> string" where
  "dialectName Responses = ''responses''"
| "dialectName Chat = ''chat''"

datatype provider = OpenAI | Anthropic | Gemini | Groq | Custom

fun providerName :: "provider \<Rightarrow> string" where
  "providerName OpenAI = ''openai''"
| "providerName Anthropic = ''anthropic''"
| "providerName Gemini = ''gemini''"
| "providerName Groq = ''groq''"
| "providerName Custom = ''custom''"

text \<open>An HTTP response: \<open>bodyText\<close> is what \<open>res.text()\<close> resolves to; \<open>res.json()\<close> parses
  that text.\<close>

record HttpResponse =
  status :: nat
  statusText :: string
  bodyText :: string

definition ok :: "HttpResponse \<Rightarrow> bool" where
  "ok res = (200 \<le> status res \<and> status res \<le> 299)"

datatype fetch_result = Rejected exn | Responded HttpResponse

text \<open>An IPC key getter rejects, or resolves to a string, \<open>null\<close> or \<open>undefined\<close>.\<close>

datatype ipc_key = KeyRejected string | KeyResolved "string option"

record retry_strategy =
  maxRetries :: nat
  shouldRetry :: "exn \<Rightarrow> bool"

record env =
  OPENAI_BASE :: string
  GEMINI :: string
  normalizeBaseUrl :: "string \<Rightarrow> string"
  buildApiUrl :: "string \<Rightarrow> string \<Rightarrow> string"
  isSecureEndpoint :: "string \<Rightarrow> bool"
  JSON_parse :: "string \<Rightarrow> json option"
  JSON_stringify :: "json \<Rightarrow> string"
  createApiRetryStrategy :: retry_strategy
  getCustomReasoningKey :: "ipc_key option"
  keyGetters :: "provider \<Rightarrow> ipc_key"
  fetch :: "nat \<Rightarrow> string \<Rightarrow> fetch_result"

text \<open>
  The mutable state: the fields of the service instance (\<open>isProcessing\<close>, the in-memory
  dialect preferences, the key cache as the entries \<open>SecureCache.get\<close> still returns),
  \<open>window.localStorage\<close> (\<open>None\<close> where there is none) and the number of \<open>fetch\<close> calls
  issued so far, which indexes the network's answers.
\<close>

record world =
  isProcessing :: bool
  openAiEndpointPreference :: "string \<rightharpoonup> dialect"
  apiKeyCache :: "provider \<rightharpoonup> string"
  localStorage :: "(string \<rightharpoonup> string) option"
  fetchCount :: nat

text \<open>\<open>window.localStorage?.getItem(k)\<close> and \<open>x || ""\<close>\<close>

definition getItem :: "world \<Rightarrow> string \<Rightarrow> string option" where
  "getItem w k = (case localStorage w of None \<Rightarrow> None | Some ls \<Rightarrow> ls k)"

fun orEmpty :: "string option \<Rightarrow> string" where
  "orEmpty None = []"
| "orEmpty (Some s) = s"

section \<open>Endpoint resolver\<close>

definition knownNonOpenAIUrls :: "string list" where
  "knownNonOpenAIUrls = [''api.groq.com'', ''api.anthropic.com'', ''generativelanguage.googleapis.com'']"

text \<open>\<open>getConfiguredOpenAIBase\<close>. The imported helpers are total here, so the \<open>catch\<close>
  branch (which also returns the default) has no separate case.\<close>

definition getConfiguredOpenAIBase :: "env \<Rightarrow> world \<Rightarrow> string" where
  "getConfiguredOpenAIBase e w =
     (case localStorage w of
        None \<Rightarrow> OPENAI_BASE e
      | Some ls \<Rightarrow>
          let provider = orEmpty (ls ''reasoningProvider'') in
          if provider \<noteq> ''custom'' then OPENAI_BASE e
          else
            let stored = orEmpty (ls ''cloudReasoningBaseUrl'');
                trimmed = trim stored
            in if trimmed = [] then OPENAI_BASE e
               else
                 let normalized =
                       (if normalizeBaseUrl e trimmed = [] then OPENAI_BASE e
                        else normalizeBaseUrl e trimmed)
                 in if list_ex (\<lambda>url. includes_str normalized url) knownNonOpenAIUrls
                    then OPENAI_BASE e
                    else if \<not> isSecureEndpoint e normalized then OPENAI_BASE e
                    else normalized)"

definition OPENAI_ENDPOINT_PREF_STORAGE_KEY :: string where
  "OPENAI_ENDPOINT_PREF_STORAGE_KEY = ''openAiEndpointPreference''"

text \<open>\<open>typeof parsed === "object" && parsed !== null\<close>\<close>

fun isObject :: "json \<Rightarrow> bool" where
  "isObject (JObj kvs) = True"
| "isObject (JArr xs) = True"
| "isObject v = False"

text \<open>\<open>value === "responses" || value === "chat"\<close>\<close>

fun dialectOf :: "json option \<Rightarrow> dialect option" where
  "dialectOf (Some (JStr s)) =
     (if s = ''responses'' then Some Responses else if s = ''chat'' then Some Chat else None)"
| "dialectOf v = None"

text \<open>\<open>data[base] = v\<close> followed by \<open>JSON.stringify(data)\<close>: an object gets or replaces
  the key; an array ignores a key that is not an index when it is serialised (a base URL
  is never an array index).\<close>

fun assign :: "(string \<times> json) list \<Rightarrow> string \<Rightarrow> json \<Rightarrow> (string \<times> json) list" where
  "assign [] k v = [(k, v)]"
| "assign ((k', v') # kvs) k v =
     (if k' = k then (k, v) # kvs else (k', v') # assign kvs k v)"

fun setMember :: "json \<Rightarrow> string \<Rightarrow> json \<Rightarrow> json" where
  "setMember (JObj kvs) k v = JObj (assign kvs k v)"
| "setMember other k v = other"

text \<open>\<open>getStoredOpenAiPreference\<close>: the in-memory map first, then the JSON object stored
  under the preference key, whose entry for the base is copied into the map.
  \<open>parsed[base]\<close> is read as an object member: an array answers only to an index or
  \<open>length\<close>, which a base URL is not.\<close>

definition getStoredOpenAiPreference :: "env \<Rightarrow> string \<Rightarrow> world \<Rightarrow> dialect option \<times> world" where
  "getStoredOpenAiPreference e base w =
     (case openAiEndpointPreference w base of
        Some d \<Rightarrow> (Some d, w)
      | None \<Rightarrow>
          (case localStorage w of
             None \<Rightarrow> (None, w)
           | Some ls \<Rightarrow>
               let raw = orEmpty (ls OPENAI_ENDPOINT_PREF_STORAGE_KEY) in
               if raw = [] then (None, w)
               else
                 (case JSON_parse e raw of
                    None \<Rightarrow> (None, w)
                  | Some parsed \<Rightarrow>
                      if \<not> isObject parsed then (None, w)
                      else
                        (case dialectOf (optProp (Some parsed) base) of
                           Some d \<Rightarrow>
                             (Some d,
                              w\<lparr>openAiEndpointPreference :=
                                   (openAiEndpointPreference w)(base \<mapsto> d)\<rparr>)
                         | None \<Rightarrow> (None, w)))))"

text \<open>\<open>rememberOpenAiPreference\<close>: the map is updated first; the stored object is
  rewritten unless parsing it throws (the empty \<open>catch\<close>).\<close>

definition rememberOpenAiPreference :: "env \<Rightarrow> string \<Rightarrow> dialect \<Rightarrow> world \<Rightarrow> world" where
  "rememberOpenAiPreference e base preference w =
     (let w1 = w\<lparr>openAiEndpointPreference := (openAiEndpointPreference w)(base \<mapsto> preference)\<rparr>
      in case localStorage w1 of
           None \<Rightarrow> w1
         | Some ls \<Rightarrow>
             let raw = orEmpty (ls OPENAI_ENDPOINT_PREF_STORAGE_KEY) in
             (case (if raw = [] then Some (JObj []) else JSON_parse e raw) of
                None \<Rightarrow> w1
              | Some parsed \<Rightarrow>
                  let data = (if isObject parsed then parsed else JObj []);
                      data' = setMember data base (JStr (dialectName preference))
                  in w1\<lparr>localStorage :=
                          Some (ls(OPENAI_ENDPOINT_PREF_STORAGE_KEY \<mapsto> JSON_stringify e data'))\<rparr>))"

text \<open>\<open>getOpenAIEndpointCandidates\<close>: a base that already names a dialect is the single
  candidate; a remembered \<open>chat\<close> preference gives the chat endpoint alone; otherwise both
  endpoints, responses first.\<close>

record candidate =
  url :: string
  type :: dialect

definition getOpenAIEndpointCandidates :: "env \<Rightarrow> string \<Rightarrow> world \<Rightarrow> candidate list \<times> world" where
  "getOpenAIEndpointCandidates e base w =
     (let lower = toLowerCase base in
      if endsWith lower ''/responses'' \<or> endsWith lower ''/chat/completions'' then
        ([\<lparr>url = base, type = (if endsWith lower ''/responses'' then Responses else Chat)\<rparr>], w)
      else
        (case getStoredOpenAiPreference e base w of
           (preference, w') \<Rightarrow>
             if preference = Some Chat then
               ([\<lparr>url = buildApiUrl e base ''/chat/completions'', type = Chat\<rparr>], w')
             else
               ([\<lparr>url = buildApiUrl e base ''/responses'', type = Responses\<rparr>,
                 \<lparr>url = buildApiUrl e base ''/chat/completions'', type = Chat\<rparr>], w')))"

section \<open>Credential resolver\<close>

text \<open>\<open>getApiKey\<close>. The custom provider asks the IPC bridge
  (\<open>window.electronAPI?.getCustomReasoningKey?.()\<close>, \<open>None\<close> where the bridge has no such
  method), falls back to the local setting and returns the trimmed key; the other
  providers ask the cache, then their IPC getter, and throw when both give nothing.\<close>

fun keyOrEmpty :: "ipc_key \<Rightarrow> string" where
  "keyOrEmpty (KeyRejected m) = []"
| "keyOrEmpty (KeyResolved k) = orEmpty k"

definition getApiKey :: "env \<Rightarrow> provider \<Rightarrow> world \<Rightarrow> (exn + string) \<times> world" where
  "getApiKey e p w =
     (if p = Custom then
        let fetched =
              (case getCustomReasoningKey e of
                 None \<Rightarrow> []
               | Some r \<Rightarrow> keyOrEmpty r);
            customKey =
              (if fetched = [] \<or> trim fetched = [] then orEmpty (getItem w ''customReasoningApiKey'')
               else fetched)
        in (Inr (trim customKey), w)
      else
        let cached = orEmpty (apiKeyCache w p) in
        if cached \<noteq> [] then (Inr cached, w)
        else
          let fetched = keyOrEmpty (keyGetters e p)
          in if fetched \<noteq> [] then (Inr fetched, w\<lparr>apiKeyCache := (apiKeyCache w)(p \<mapsto> fetched)\<rparr>)
             else (Inl (Error (capitalize (providerName p) @ '' API key not configured'')), w))"

section \<open>Transport and retry\<close>

text \<open>
  Modelled from the spec: \<open>withRetry\<close> and \<open>createApiRetryStrategy\<close> (\<open>utils/retry\<close>) are not
  part of the sources. The specification: a call is wrapped in a retry strategy with a
  bounded number of attempts, which retries on failures (thrown errors) and gives up after
  the budget, surfacing the last error; a call that succeeds is returned at once.
\<close>

fun withRetryFrom ::
  "nat \<Rightarrow> (exn \<Rightarrow> bool) \<Rightarrow> (world \<Rightarrow> (exn + 'a) \<times> world) \<Rightarrow> world \<Rightarrow> (exn + 'a) \<times> world" where
  "withRetryFrom 0 retry fn w = fn w"
| "withRetryFrom (Suc n) retry fn w =
     (case fn w of
        (Inr v, w') \<Rightarrow> (Inr v, w')
      | (Inl x, w') \<Rightarrow> if retry x then withRetryFrom n retry fn w' else (Inl x, w'))"

definition withRetry ::
  "(world \<Rightarrow> (exn + 'a) \<times> world) \<Rightarrow> retry_strategy \<Rightarrow> world \<Rightarrow> (exn + 'a) \<times> world" where
  "withRetry fn strategy w = withRetryFrom (maxRetries strategy) (shouldRetry strategy) fn w"

text \<open>The message of \<open>new Error(v)\<close> for a truthy \<open>v\<close>.\<close>

fun messageOf :: "json option \<Rightarrow> string" where
  "messageOf (Some j) = toStringJS j"
| "messageOf None = []"

definition resJson :: "env \<Rightarrow> HttpResponse \<Rightarrow> json option" where
  "resJson e res = JSON_parse e (bodyText res)"

section \<open>OpenAI-compatible provider\<close>

text \<open>
  The message of a response that is not \<open>ok\<close>:
  \<^verbatim>\<open>errorData = await res.json().catch(() => ({ error: res.statusText }))\<close>,
  \<^verbatim>\<open>errorData.error?.message || errorData.message || `OpenAI API error: ${res.status}`\<close>.
  A body that is the JSON \<open>null\<close> makes \<open>errorData.error\<close> throw.
\<close>

definition openAiErrorMessage :: "env \<Rightarrow> HttpResponse \<Rightarrow> exn + string" where
  "openAiErrorMessage e res =
     (let errorData =
            (case resJson e res of
               None \<Rightarrow> JObj [(''error'', JStr (statusText res))]
             | Some j \<Rightarrow> j)
      in case getProp (Some errorData) ''error'' of
           Inl x \<Rightarrow> Inl x
         | Inr err \<Rightarrow>
             if truthy (optProp err ''message'') then Inr (messageOf (optProp err ''message''))
             else if truthy (optProp (Some errorData) ''message'')
               then Inr (messageOf (optProp (Some errorData) ''message''))
             else Inr (''OpenAI API error: '' @ digits (status res)))"

text \<open>
  The callback given to \<open>withRetry\<close>: the loop over the endpoint candidates, with
  \<open>lastError\<close>. Each \<open>fetch\<close> takes the next answer of the network. Inside the \<open>try\<close>, a
  404 or 405 from the responses dialect records the chat preference and moves on; any
  other throw moves on from a responses candidate and is rethrown from a chat candidate.
  \<open>return res.json()\<close> is not awaited, so a body that fails to parse rejects the callback
  itself. The request body (model, messages, temperature) only reaches the server, whose
  answers are the \<open>fetch\<close> field.
\<close>

fun tryCandidates ::
  "env \<Rightarrow> string \<Rightarrow> candidate list \<Rightarrow> exn option \<Rightarrow> world \<Rightarrow> (exn + json) \<times> world" where
  "tryCandidates e openAiBase [] lastError w =
     (Inl (case lastError of Some x \<Rightarrow> x | None \<Rightarrow> Error ''No OpenAI endpoint responded''), w)"
| "tryCandidates e openAiBase (c # cs) lastError w =
     (let w1 = w\<lparr>fetchCount := Suc (fetchCount w)\<rparr> in
      case fetch e (fetchCount w) (url c) of
        Rejected x \<Rightarrow>
          if type c = Responses then tryCandidates e openAiBase cs (Some x) w1 else (Inl x, w1)
      | Responded res \<Rightarrow>
          if \<not> ok res then
            (case openAiErrorMessage e res of
               Inl x \<Rightarrow>
                 if type c = Responses then tryCandidates e openAiBase cs (Some x) w1
                 else (Inl x, w1)
             | Inr errorMessage \<Rightarrow>
                 if (status res = 404 \<or> status res = 405) \<and> type c = Responses then
                   tryCandidates e openAiBase cs (Some (Error errorMessage))
                     (rememberOpenAiPreference e openAiBase Chat w1)
                 else if type c = Responses then
                   tryCandidates e openAiBase cs (Some (Error errorMessage)) w1
                 else (Inl (Error errorMessage), w1))
          else
            (let w2 = rememberOpenAiPreference e openAiBase (type c) w1 in
             case resJson e res of
               None \<Rightarrow> (Inl SyntaxError, w2)
             | Some j \<Rightarrow> (Inr j, w2)))"

text \<open>\<open>for (const x of v)\<close>: arrays and strings are iterable.\<close>

fun iterate :: "json \<Rightarrow> exn + json list" where
  "iterate (JArr xs) = Inr xs"
| "iterate (JStr s) = Inr (map (\<lambda>c. JStr [c]) s)"
| "iterate v = Inl TypeError"

text \<open>The inner loop over \<open>item.content\<close>: \<open>Some t\<close> when it assigned \<open>responseText = t\<close>
  and broke out, \<open>None\<close> when it ran to the end.\<close>

fun scanContent :: "json list \<Rightarrow> exn + string option" where
  "scanContent [] = Inr None"
| "scanContent (content # rest) =
     (case getProp (Some content) ''type'' of
        Inl x \<Rightarrow> Inl x
      | Inr ty \<Rightarrow>
          if ty = Some (JStr ''output_text'') \<and> truthy (optProp (Some content) ''text'') then
            (case optProp (Some content) ''text'' of
               Some (JStr s) \<Rightarrow> Inr (Some (trim s))
             | _ \<Rightarrow> Inl TypeError)
          else scanContent rest)"

text \<open>The loop over \<open>response.output\<close>: the value of \<open>responseText\<close> after it.\<close>

fun scanOutput :: "json list \<Rightarrow> exn + string" where
  "scanOutput [] = Inr []"
| "scanOutput (item # rest) =
     (case getProp (Some item) ''type'' of
        Inl x \<Rightarrow> Inl x
      | Inr ty \<Rightarrow>
          (case optProp (Some item) ''content'' of
             None \<Rightarrow> scanOutput rest
           | Some content \<Rightarrow>
               if ty = Some (JStr ''message'') \<and> truthy (Some content) then
                 (case iterate content of
                    Inl x \<Rightarrow> Inl x
                  | Inr parts \<Rightarrow>
                      (case scanContent parts of
                         Inl x \<Rightarrow> Inl x
                       | Inr None \<Rightarrow> scanOutput rest
                       | Inr (Some responseText) \<Rightarrow>
                           if responseText \<noteq> [] then Inr responseText else scanOutput rest))
               else scanOutput rest))"

text \<open>The loop over the parts of an array-valued message content.\<close>

fun scanParts :: "json list \<Rightarrow> string" where
  "scanParts [] = []"
| "scanParts (part # rest) =
     (case optProp (Some part) ''text'' of
        Some (JStr s) \<Rightarrow> if trim s \<noteq> [] then trim s else scanParts rest
      | _ \<Rightarrow> scanParts rest)"

text \<open>\<open>typeof v === "string" ? v.trim() : ""\<close>\<close>

fun trimmedString :: "json option \<Rightarrow> string" where
  "trimmedString (Some (JStr s)) = trim s"
| "trimmedString v = []"

text \<open>The loop over \<open>response.choices\<close>: message content as a string, then as an array
  of parts, then the legacy \<open>choice.text\<close>.\<close>

fun scanChoices :: "json list \<Rightarrow> string" where
  "scanChoices [] = []"
| "scanChoices (choice # rest) =
     (let m = optProp (Some choice) ''message'';
          message = (if m = None \<or> m = Some JNull then optProp (Some choice) ''delta'' else m);
          content = optProp message ''content''
      in if trimmedString content \<noteq> [] then trimmedString content
         else
           let fromParts = (case content of Some (JArr parts) \<Rightarrow> scanParts parts | _ \<Rightarrow> [])
           in if fromParts \<noteq> [] then fromParts
              else if trimmedString (optProp (Some choice) ''text'') \<noteq> []
                then trimmedString (optProp (Some choice) ''text'')
              else scanChoices rest)"

text \<open>The arguments of the \<open>OPENAI_RAW_RESPONSE\<close> log entry are evaluated before the
  extraction: \<open>response.output.map((item) => item.type)\<close> throws on a \<open>null\<close> item and
  \<open>response.usage\<close> on a \<open>null\<close> response.\<close>

definition rawResponseLogged :: "json \<Rightarrow> exn + unit" where
  "rawResponseLogged response =
     (case optProp (Some response) ''output'' of
        Some (JArr items) \<Rightarrow> if list_ex (\<lambda>item. item = JNull) items then Inl TypeError else Inr ()
      | _ \<Rightarrow> if response = JNull then Inl TypeError else Inr ())"

text \<open>The response normaliser of \<open>processWithOpenAI\<close>: \<open>responseText\<close> before the final
  emptiness test.\<close>

definition extractOpenAIText :: "json \<Rightarrow> exn + string" where
  "extractOpenAIText response =
     (case rawResponseLogged response of
        Inl x \<Rightarrow> Inl x
      | Inr u \<Rightarrow>
          (case (case optProp (Some response) ''output'' of
                   Some (JArr items) \<Rightarrow> scanOutput items
                 | _ \<Rightarrow> Inr []) of
             Inl x \<Rightarrow> Inl x
           | Inr fromOutput \<Rightarrow>
               let fromOutputText =
                     (if fromOutput = [] \<and> isString (optProp (Some response) ''output_text'')
                      then trimmedString (optProp (Some response) ''output_text'')
                      else fromOutput)
               in Inr (if fromOutputText = [] then
                         (case optProp (Some response) ''choices'' of
                            Some (JArr choices) \<Rightarrow> scanChoices choices
                          | _ \<Rightarrow> fromOutputText)
                       else fromOutputText)))"

text \<open>
  The transport stage of \<open>processWithOpenAI\<close>, from \<open>getConfiguredOpenAIBase()\<close> to the
  end of \<open>await withRetry(...)\<close>: the base, its candidates, the preference lookup of the
  \<open>OPENAI_ENDPOINTS\<close> log entry, and the candidate loop under the retry strategy. Its
  result is the parsed body of whichever candidate answered, on whichever attempt.
\<close>

definition openAiTransport :: "env \<Rightarrow> world \<Rightarrow> (exn + json) \<times> world" where
  "openAiTransport e w =
     (let openAiBase = getConfiguredOpenAIBase e w
      in case getOpenAIEndpointCandidates e openAiBase w of
           (endpointCandidates, w1) \<Rightarrow>
             (case getStoredOpenAiPreference e openAiBase w1 of
                (logged, w2) \<Rightarrow>
                  withRetry (tryCandidates e openAiBase endpointCandidates None)
                    (createApiRetryStrategy e) w2))"

text \<open>What the transport reads of the state: the storage, the remembered preferences and
  the position in the network's answers. Two states that agree on these give the same
  transport result.\<close>

definition agree :: "world \<Rightarrow> world \<Rightarrow> bool" where
  "agree w w' =
     (localStorage w = localStorage w'
      \<and> openAiEndpointPreference w = openAiEndpointPreference w'
      \<and> fetchCount w = fetchCount w')"

text \<open>
  \<open>processWithOpenAI\<close>, in the three stretches its \<open>await\<close>s cut it into: the guard, which
  runs when the method is called; the key lookup it then awaits; and the rest, which
  starts by setting \<open>isProcessing\<close> and ends in the \<open>finally\<close> that clears it.
\<close>

definition processWithOpenAI_enter :: "world \<Rightarrow> exn + provider" where
  "processWithOpenAI_enter w =
     (let isCustomProvider = (orEmpty (getItem w ''reasoningProvider'') = ''custom'') in
      if isProcessing w then Inl (Error ''Already processing a request'')
      else Inr (if isCustomProvider then Custom else OpenAI))"

definition processWithOpenAI_resume ::
  "env \<Rightarrow> string \<Rightarrow> string \<Rightarrow> string \<Rightarrow> world \<Rightarrow> (exn + string) \<times> world" where
  "processWithOpenAI_resume e text model apiKey w0 =
     (let w = w0\<lparr>isProcessing := True\<rparr>;
          openAiBase = getConfiguredOpenAIBase e w
      in case getOpenAIEndpointCandidates e openAiBase w of
           (endpointCandidates, w1) \<Rightarrow>
             (case getStoredOpenAiPreference e openAiBase w1 of
                (logged, w2) \<Rightarrow>
                  (case withRetry (tryCandidates e openAiBase endpointCandidates None)
                          (createApiRetryStrategy e) w2 of
                     (Inl x, w3) \<Rightarrow> (Inl x, w3\<lparr>isProcessing := False\<rparr>)
                   | (Inr response, w3) \<Rightarrow>
                       (case extractOpenAIText response of
                          Inl x \<Rightarrow> (Inl x, w3\<lparr>isProcessing := False\<rparr>)
                        | Inr responseText \<Rightarrow>
                            (Inr (if responseText = [] then text else responseText),
                             w3\<lparr>isProcessing := False\<rparr>)))))"

definition processWithOpenAI :: "env \<Rightarrow> string \<Rightarrow> string \<Rightarrow> world \<Rightarrow> (exn + string) \<times> world" where
  "processWithOpenAI e text model w =
     (case processWithOpenAI_enter w of
        Inl x \<Rightarrow> (Inl x, w)
      | Inr p \<Rightarrow>
          (case getApiKey e p w of
             (Inl x, w1) \<Rightarrow> (Inl x, w1)
           | (Inr apiKey, w1) \<Rightarrow> processWithOpenAI_resume e text model apiKey w1))"

text \<open>
  Two calls of \<open>processWithOpenAI\<close> on one service, the second made while the first is
  suspended at \<open>await this.getApiKey(...)\<close>: both guards run before either call goes
  on; then the first call resumes and finishes, then the second.
\<close>

definition overlappingOpenAICalls ::
  "env \<Rightarrow> string \<Rightarrow> string \<Rightarrow> string \<Rightarrow> world \<Rightarrow> ((exn + string) \<times> (exn + string)) \<times> world" where
  "overlappingOpenAICalls e text1 text2 model w =
     (let first = processWithOpenAI_enter w;
          second = processWithOpenAI_enter w;
          continue = (\<lambda>entered text v.
            case entered of
              Inl x \<Rightarrow> (Inl x, v)
            | Inr p \<Rightarrow>
                (case getApiKey e p v of
                   (Inl x, v1) \<Rightarrow> (Inl x, v1)
                 | (Inr apiKey, v1) \<Rightarrow> processWithOpenAI_resume e text model apiKey v1))
      in case continue first text1 w of
           (result1, w1) \<Rightarrow>
             (case continue second text2 w1 of
                (result2, w2) \<Rightarrow> ((result1, result2), w2)))"

section \<open>Gemini provider\<close>

text \<open>
  What the \<open>withRetry\<close> callback throws for a response that is not \<open>ok\<close>:
  \<^verbatim>\<open>errorData.error?.message || errorData.message || errorData.error || `Gemini API error: ${res.status}`\<close>
  with \<open>errorData\<close> parsed from the body text, or \<open>{ error: errorText || res.statusText }\<close>.
\<close>

definition geminiFailure :: "env \<Rightarrow> HttpResponse \<Rightarrow> exn" where
  "geminiFailure e res =
     (let errorText = bodyText res;
          errorData =
            (case JSON_parse e errorText of
               None \<Rightarrow> JObj [(''error'', JStr (if errorText = [] then statusText res else errorText))]
             | Some j \<Rightarrow> j)
      in case getProp (Some errorData) ''error'' of
           Inl x \<Rightarrow> x
         | Inr err \<Rightarrow>
             if truthy (optProp err ''message'') then Error (messageOf (optProp err ''message''))
             else if truthy (optProp (Some errorData) ''message'')
               then Error (messageOf (optProp (Some errorData) ''message''))
             else if truthy err then Error (messageOf err)
             else Error (''Gemini API error: '' @ digits (status res)))"

definition geminiAttempt :: "env \<Rightarrow> string \<Rightarrow> world \<Rightarrow> (exn + json) \<times> world" where
  "geminiAttempt e model w =
     (let w1 = w\<lparr>fetchCount := Suc (fetchCount w)\<rparr> in
      case fetch e (fetchCount w) (GEMINI e @ ''/models/'' @ model @ '':generateContent'') of
        Rejected x \<Rightarrow> (Inl x, w1)
      | Responded res \<Rightarrow>
          if \<not> ok res then (Inl (geminiFailure e res), w1)
          else
            (case resJson e res of
               None \<Rightarrow> (Inl SyntaxError, w1)
             | Some j \<Rightarrow> (Inr j, w1)))"

definition GEMINI_TOKEN_LIMIT :: string where
  "GEMINI_TOKEN_LIMIT =
     ''Gemini reached token limit before generating response. Try a shorter input or increase max tokens.''"

text \<open>The response normaliser of \<open>processWithGemini\<close>.\<close>

definition extractGeminiText :: "json \<Rightarrow> exn + string" where
  "extractGeminiText response =
     (case getProp (Some response) ''candidates'' of
        Inl x \<Rightarrow> Inl x
      | Inr candidates \<Rightarrow>
          if \<not> truthy candidates \<or> \<not> truthy (optIndex0 candidates) then
            Inl (Error ''Invalid response structure from Gemini API'')
          else
            let candidate = optIndex0 candidates;
                text = optProp (optIndex0 (optProp (optProp candidate ''content'') ''parts'')) ''text''
            in if \<not> truthy text then
                 (if optProp candidate ''finishReason'' = Some (JStr ''MAX_TOKENS'') then
                    Inl (Error GEMINI_TOKEN_LIMIT)
                  else Inl (Error ''Gemini returned empty response''))
               else
                 (case text of
                    Some (JStr s) \<Rightarrow> Inr (trim s)
                  | _ \<Rightarrow> Inl TypeError))"

definition processWithGemini_enter :: "world \<Rightarrow> exn + provider" where
  "processWithGemini_enter w =
     (if isProcessing w then Inl (Error ''Already processing a request'') else Inr Gemini)"

definition processWithGemini_resume ::
  "env \<Rightarrow> string \<Rightarrow> string \<Rightarrow> string \<Rightarrow> world \<Rightarrow> (exn + string) \<times> world" where
  "processWithGemini_resume e text model apiKey w0 =
     (let w = w0\<lparr>isProcessing := True\<rparr> in
      case withRetry (geminiAttempt e model) (createApiRetryStrategy e) w of
        (Inl x, w1) \<Rightarrow> (Inl x, w1\<lparr>isProcessing := False\<rparr>)
      | (Inr response, w1) \<Rightarrow>
          (case extractGeminiText response of
             Inl x \<Rightarrow> (Inl x, w1\<lparr>isProcessing := False\<rparr>)
           | Inr responseText \<Rightarrow> (Inr responseText, w1\<lparr>isProcessing := False\<rparr>)))"

definition processWithGemini :: "env \<Rightarrow> string \<Rightarrow> string \<Rightarrow> world \<Rightarrow> (exn + string) \<times> world" where
  "processWithGemini e text model w =
     (case processWithGemini_enter w of
        Inl x \<Rightarrow> (Inl x, w)
      | Inr p \<Rightarrow>
          (case getApiKey e p w of
             (Inl x, w1) \<Rightarrow> (Inl x, w1)
           | (Inr apiKey, w1) \<Rightarrow> processWithGemini_resume e text model apiKey w1))"

section \<open>Local reasoning bridge\<close>

text \<open>
  \<open>LocalReasoningService.processText\<close> of \<open>localReasoningBridge.js\<close>. Its collaborators
  (the process environment and the model manager) are a record; its state is the
  \<open>isProcessing\<close> flag of its own instance. The method runs up to its first \<open>await\<close> when it
  is called (\<open>LocalReasoningService_enter\<close>) and sets the flag there.
\<close>

record local_model =
  model_id :: string
  isDownloaded :: bool

record bridge =
  REASONING_PROVIDER :: "string option"
  getAllModels :: "exn + local_model list"
  runInference :: "string \<Rightarrow> string \<Rightarrow> exn + string"

definition LocalReasoningService_enter :: "bridge \<Rightarrow> bool \<Rightarrow> (exn + unit) \<times> bool" where
  "LocalReasoningService_enter b processing =
     (if orEmpty (REASONING_PROVIDER b) \<noteq> [] \<and> orEmpty (REASONING_PROVIDER b) \<noteq> ''local'' then
        (Inl (Error (''Local reasoning is disabled while provider is set to ''
                      @ orEmpty (REASONING_PROVIDER b))), processing)
      else if processing then (Inl (Error ''Already processing a request''), processing)
      else (Inr (), True))"

definition LocalReasoningService_resume ::
  "bridge \<Rightarrow> string \<Rightarrow> string \<Rightarrow> bool \<Rightarrow> (exn + string) \<times> bool" where
  "LocalReasoningService_resume b text modelId processing =
     (case getAllModels b of
        Inl x \<Rightarrow> (Inl x, False)
      | Inr models \<Rightarrow>
          (case find (\<lambda>m. model_id m = modelId) models of
             None \<Rightarrow> (Inl (Error (''Local model '' @ modelId @ '' is not downloaded'')), False)
           | Some matchedModel \<Rightarrow>
               if \<not> isDownloaded matchedModel then
                 (Inl (Error (''Local model '' @ modelId @ '' is not downloaded'')), False)
               else
                 (case runInference b modelId text of
                    Inl x \<Rightarrow> (Inl x, False)
                  | Inr result \<Rightarrow> (Inr result, False))))"

definition LocalReasoningService_processText ::
  "bridge \<Rightarrow> string \<Rightarrow> string \<Rightarrow> bool \<Rightarrow> (exn + string) \<times> bool" where
  "LocalReasoningService_processText b text modelId processing =
     (case LocalReasoningService_enter b processing of
        (Inl x, processing') \<Rightarrow> (Inl x, processing')
      | (Inr u, processing') \<Rightarrow> LocalReasoningService_resume b text modelId processing')"

section \<open>Prompt studio\<close>

text \<open>
  \<open>testPrompt\<close> of the \<open>PromptStudio\<close> component. The browser's \<open>localStorage\<close> is a map;
  the component state it writes is \<open>isLoading\<close> and \<open>testResult\<close>. The two calls it can
  await, \<open>window.electronAPI.processLocalReasoning\<close> and \<open>ReasoningService.processText\<close>,
  are parameters: each gets the test text and the model, may change the storage while
  it runs, and resolves (\<open>Inr\<close>) or rejects with a message (\<open>Inl\<close>).
\<close>

type_synonym storage = "string \<rightharpoonup> string"

record ProviderConfig =
  label :: string
  baseStorageKey :: "string option"

definition PROVIDER_CONFIG :: "(string \<times> ProviderConfig) list" where
  "PROVIDER_CONFIG =
     [(''openai'', \<lparr>label = ''OpenAI'', baseStorageKey = None\<rparr>),
      (''anthropic'', \<lparr>label = ''Anthropic'', baseStorageKey = None\<rparr>),
      (''gemini'', \<lparr>label = ''Gemini'', baseStorageKey = None\<rparr>),
      (''custom'', \<lparr>label = ''Custom endpoint'', baseStorageKey = Some ''cloudReasoningBaseUrl''\<rparr>),
      (''local'', \<lparr>label = ''Local'', baseStorageKey = None\<rparr>)]"

record local_result =
  success :: bool
  result_text :: string
  result_error :: string

record studio =
  allReasoningModels :: "ReasoningModelWithProvider list"
  stringify :: "string \<Rightarrow> string"
  processLocalReasoning :: "string \<Rightarrow> string \<Rightarrow> storage \<Rightarrow> (string + local_result) \<times> storage"
  processText :: "string \<Rightarrow> string \<Rightarrow> storage \<Rightarrow> (string + string) \<times> storage"

record view =
  isLoading :: bool
  testResult :: string

text \<open>The checks before the test call: nothing happens for a blank test text
  (\<open>NotRun\<close>); a disabled feature, a missing model or a missing base URL end the call with
  a message (\<open>Refused\<close>); otherwise the call goes on with the provider and the model.\<close>

datatype gate = NotRun | Refused string | Stage string string

definition testPromptGate :: "studio \<Rightarrow> string \<Rightarrow> storage \<Rightarrow> gate" where
  "testPromptGate s testText ls =
     (if trim testText = [] then NotRun
      else
        let useReasoningModel = (ls ''useReasoningModel'' \<noteq> Some ''false'');
            reasoningModel = orEmpty (ls ''reasoningModel'');
            reasoningProvider =
              (if reasoningModel \<noteq> [] then
                 getModelProvider (allReasoningModels s) reasoningModel
                   (Some (orEmpty (ls ''reasoningProvider''))) False
               else ''openai'')
        in if \<not> useReasoningModel then
             Refused ''AI text enhancement is disabled. Enable it in AI Models to test prompts.''
           else if reasoningModel = [] then
             Refused ''No reasoning model selected. Choose one in AI Models settings.''
           else
             (case map_of PROVIDER_CONFIG reasoningProvider of
                None \<Rightarrow> Stage reasoningProvider reasoningModel
              | Some providerConfig \<Rightarrow>
                  (case baseStorageKey providerConfig of
                     None \<Rightarrow> Stage reasoningProvider reasoningModel
                   | Some k \<Rightarrow>
                       if trim (orEmpty (ls k)) = [] then
                         Refused (label providerConfig
                                  @ '' base URL missing. Add it in AI Models settings.'')
                       else Stage reasoningProvider reasoningModel)))"

text \<open>The test call and the \<open>finally\<close> that puts the stored prompt back:
  \<^verbatim>\<open>if (currentCustomPrompt) setItem("customUnifiedPrompt", currentCustomPrompt)
  else removeItem("customUnifiedPrompt")\<close>.\<close>

definition runTest ::
  "studio \<Rightarrow> string \<Rightarrow> string \<Rightarrow> string \<Rightarrow> string \<Rightarrow> storage \<Rightarrow> string \<times> storage" where
  "runTest s testText editedPrompt reasoningProvider reasoningModel ls =
     (let currentCustomPrompt = ls ''customUnifiedPrompt'';
          ls1 = ls(''customUnifiedPrompt'' \<mapsto> stringify s editedPrompt);
          restore = (\<lambda>st :: storage.
             if orEmpty currentCustomPrompt \<noteq> [] then
               st(''customUnifiedPrompt'' \<mapsto> orEmpty currentCustomPrompt)
             else st(''customUnifiedPrompt'' := None))
      in if reasoningProvider = ''local'' then
           (case processLocalReasoning s testText reasoningModel ls1 of
              (Inl message, ls2) \<Rightarrow> (''Test failed: '' @ message, restore ls2)
            | (Inr result, ls2) \<Rightarrow>
                (if success result then result_text result
                 else ''Local model error: '' @ result_error result, restore ls2))
         else
           (case processText s testText reasoningModel ls1 of
              (Inl message, ls2) \<Rightarrow> (''Test failed: '' @ message, restore ls2)
            | (Inr result, ls2) \<Rightarrow> (result, restore ls2)))"

definition testPrompt ::
  "studio \<Rightarrow> string \<Rightarrow> string \<Rightarrow> storage \<times> view \<Rightarrow> storage \<times> view" where
  "testPrompt s testText editedPrompt state =
     (case state of
        (ls, v) \<Rightarrow>
          (case testPromptGate s testText ls of
             NotRun \<Rightarrow> (ls, v)
           | Refused message \<Rightarrow> (ls, \<lparr>isLoading = False, testResult = message\<rparr>)
           | Stage reasoningProvider reasoningModel \<Rightarrow>
               (case runTest s testText editedPrompt reasoningProvider reasoningModel ls of
                  (shown, ls') \<Rightarrow> (ls', \<lparr>isLoading = False, testResult = shown\<rparr>))))"

section \<open>Example environment\<close>

text \<open>A concrete environment and an idle service, for evaluating the functions above.\<close>

definition demoEnv :: env where
  "demoEnv =
     \<lparr>OPENAI_BASE = ''https://api.openai.com/v1'',
      GEMINI = ''https://generativelanguage.googleapis.com/v1beta'',
      normalizeBaseUrl = (\<lambda>s. s),
      buildApiUrl = (\<lambda>b p. b @ p),
      isSecureEndpoint = (\<lambda>s. startsWith s ''https://''),
      JSON_parse = (\<lambda>s. None),
      JSON_stringify = (\<lambda>j. ''{}''),
      createApiRetryStrategy = \<lparr>maxRetries = 2, shouldRetry = (\<lambda>x. True)\<rparr>,
      getCustomReasoningKey = None,
      keyGetters = (\<lambda>p. KeyResolved None),
      fetch = (\<lambda>n u. Rejected TypeError)\<rparr>"

definition demoWorld :: world where
  "demoWorld =
     \<lparr>isProcessing = False,
      openAiEndpointPreference = Map.empty,
      apiKeyCache = Map.empty,
      localStorage = Some Map.empty,
      fetchCount = 0\<rparr>"

text \<open>An endpoint that only knows the chat-completions dialect: 404 on \<open>/responses\<close>,
  200 with a completion otherwise.\<close>

definition chatOnlyEnv :: env where
  "chatOnlyEnv =
     demoEnv
       \<lparr>JSON_parse :=
          (\<lambda>s. if s = ''completion''
                then Some (JObj [(''choices'',
                       JArr [JObj [(''message'', JObj [(''content'', JStr '' Hello world. '')])]])])
                else None),
        keyGetters := (\<lambda>p. KeyResolved (Some ''sk-test'')),
        fetch :=
          (\<lambda>n u. if endsWith u ''/responses''
                  then Responded \<lparr>status = 404, statusText = ''Not Found'', bodyText = []\<rparr>
                  else Responded \<lparr>status = 200, statusText = ''OK'', bodyText = ''completion''\<rparr>)\<rparr>"

text \<open>An endpoint that only knows the chat-completions dialect and whose completion is
  \<open>{"choices": [{"message": {"content": ""}}]}\<close>.\<close>

definition emptyChatEnv :: env where
  "emptyChatEnv =
     demoEnv
       \<lparr>JSON_parse :=
          (\<lambda>s. if s = ''completion''
                then Some (JObj [(''choices'',
                       JArr [JObj [(''message'', JObj [(''content'', JStr [])])]])])
                else None),
        keyGetters := (\<lambda>p. KeyResolved (Some ''sk-test'')),
        fetch :=
          (\<lambda>n u. if endsWith u ''/responses''
                  then Responded \<lparr>status = 404, statusText = ''Not Found'', bodyText = []\<rparr>
                  else Responded \<lparr>status = 200, statusText = ''OK'', bodyText = ''completion''\<rparr>)\<rparr>"

text \<open>An endpoint that answers every request with a completion whose content is a
  no-break space (U+00A0) followed by a line feed.\<close>

definition blankChatEnv :: env where
  "blankChatEnv =
     demoEnv
       \<lparr>JSON_parse :=
          (\<lambda>s. if s = ''completion''
                then Some (JObj [(''choices'',
                       JArr [JObj [(''message'',
                         JObj [(''content'', JStr [CHR 0xC2, CHR 0xA0, CHR 0x0A])])]])])
                else None),
        keyGetters := (\<lambda>p. KeyResolved (Some ''sk-test'')),
        fetch := (\<lambda>n u. Responded \<lparr>status = 200, statusText = ''OK'', bodyText = ''completion''\<rparr>)\<rparr>"


text \<open>A prompt studio whose test calls echo the test text and leave the storage alone.\<close>

definition demoStudio :: studio where
  "demoStudio =
     \<lparr>allReasoningModels = [],
      stringify = (\<lambda>s. CHR 0x22 # s @ [CHR 0x22]),
      processLocalReasoning =
        (\<lambda>t m ls. (Inr \<lparr>success = True, result_text = t, result_error = []\<rparr>, ls)),
      processText = (\<lambda>t m ls. (Inr t, ls))\<rparr>"

section \<open>Properties\<close>

subsection \<open>Substring tests\<close>

lemma startsWith_append: "startsWith (p @ s) p"
  by (induction p) auto

lemma includes_append: "includes_str (a @ p @ b) p"
proof (induction a)
  case Nil
  show ?case
  proof (cases "p @ b")
    case Nil
    then show ?thesis by simp
  next
    case (Cons c cs)
    have "startsWith (p @ b) p" by (rule startsWith_append)
    with Cons show ?thesis by simp
  qed
next
  case (Cons x a)
  then show ?case by simp
qed

subsection \<open>Token budget\<close>

text \<open>
  C9. \<open>calculateMaxTokens(textLength, minTokens, maxTokens, multiplier)\<close> is
  \<open>clamp(textLength * multiplier, minTokens, maxTokens)\<close> for bounds in order
  (\<open>minTokens \<le> maxTokens\<close>, the only case in which a clamp is defined); on the
  specification's three examples it gives 100 (clamped up), 2048 (clamped down) and 1000.
\<close>

theorem calculateMaxTokens_clamp:
  "(minTokens \<le> maxTokens \<longrightarrow>
      calculateMaxTokens textLength minTokens maxTokens multiplier =
        clamp (textLength * multiplier) minTokens maxTokens)
   \<and> calculateMaxTokens 10 100 2048 2 = 100
   \<and> calculateMaxTokens 2000 100 2048 2 = 2048
   \<and> calculateMaxTokens 500 100 2048 2 = 1000"
  by (simp add: calculateMaxTokens_def clamp_def)

theorem calculateMaxTokens_clamp_witness:
  "(100::int) \<le> 2048 \<and> calculateMaxTokens 700 100 2048 2 = clamp (700 * 2) 100 2048
   \<and> clamp (700 * 2) 100 2048 = 1400"
  using calculateMaxTokens_clamp [of 100 2048 700 2] by (simp add: clamp_def)

subsection \<open>Provider resolution\<close>

lemma getModelProvider_heuristic:
  assumes "find (\<lambda>m. model_value m = modelId) registry = None"
      and "noOverride preferredProvider"
  shows "getModelProvider registry modelId preferredProvider allowLocalFallback =
     (if includes_str modelId ''claude'' then ''anthropic''
      else if includes_str modelId ''gemini'' \<and> \<not> includes_str modelId ''gemma'' then ''gemini''
      else if (includes_str modelId ''gpt-4'' \<or> includes_str modelId ''gpt-5'')
               \<and> \<not> includes_str modelId ''gpt-oss'' then ''openai''
      else if includes_str modelId ''qwen/'' \<or> includes_str modelId ''openai/''
               \<or> includes_str modelId ''llama-3.1-8b-instant''
               \<or> includes_str modelId ''llama-3.3-'' \<or> includes_str modelId ''mixtral-''
               \<or> includes_str modelId ''gemma2-'' then ''groq''
      else if allowLocalFallback
               \<and> (includes_str modelId ''qwen'' \<or> includes_str modelId ''llama''
                    \<or> includes_str modelId ''mistral''
                    \<or> includes_str modelId ''gpt-oss-20b-mxfp4'') then ''local''
      else ''openai'')"
proof (cases preferredProvider)
  case None
  with assms(1) show ?thesis by (simp add: getModelProvider_def)
next
  case (Some p)
  with assms(2) have "toLowerCase (trim p) = [] \<or> toLowerCase (trim p) = ''auto''"
    by (simp add: noOverride_def)
  with Some assms(1) show ?thesis
    unfolding getModelProvider_def Let_def by (elim disjE) simp_all
qed

text \<open>
  C5, as the code has it. The claim as stated fails: the \<open>claude\<close> test comes first, so
  a model id that contains \<open>gemini\<close>, not \<open>gemma\<close>, but also \<open>claude\<close> resolves to
  \<open>anthropic\<close>.
\<close>

theorem getModelProvider_gemini_counterexample:
  "includes_str ''claude-gemini'' ''gemini'' \<and> \<not> includes_str ''claude-gemini'' ''gemma''
   \<and> noOverride None \<and> find (\<lambda>m. model_value m = ''claude-gemini'') [] = None
   \<and> getModelProvider [] ''claude-gemini'' None True = ''anthropic''
   \<and> getModelProvider [] ''claude-gemini'' None True \<noteq> ''gemini''"
  by (simp add: getModelProvider_def noOverride_def)

text \<open>
  C5 (amended). With no explicit override and a model id that is not in the registry: an
  id that contains \<open>gemini\<close> and neither \<open>gemma\<close> nor \<open>claude\<close> resolves to \<open>gemini\<close>; an
  id that contains \<open>gemma\<close> never resolves to \<open>gemini\<close>.
\<close>

theorem getModelProvider_gemini:
  assumes "find (\<lambda>m. model_value m = modelId) registry = None"
      and "noOverride preferredProvider"
  shows "(includes_str modelId ''gemini'' \<and> \<not> includes_str modelId ''gemma''
            \<and> \<not> includes_str modelId ''claude''
          \<longrightarrow> getModelProvider registry modelId preferredProvider allowLocalFallback = ''gemini'')
       \<and> (includes_str modelId ''gemma''
          \<longrightarrow> getModelProvider registry modelId preferredProvider allowLocalFallback \<noteq> ''gemini'')"
  unfolding getModelProvider_heuristic [OF assms] by simp

theorem getModelProvider_gemini_witness:
  "getModelProvider [] ''gemini-2.5-flash'' None True = ''gemini''
   \<and> getModelProvider [] ''gemma-7b'' (Some ''auto'') False \<noteq> ''gemini''"
proof -
  have r: "find (\<lambda>m. model_value m = x) [] = None" for x :: string
    by simp
  have n: "noOverride None" "noOverride (Some ''auto'')"
    by (simp_all add: noOverride_def trim_def isWhiteSpace_def isWhiteSpace2_def isWhiteSpace3_def toLowerCase_def lowerChar_def)
  have g: "includes_str ''gemini-2.5-flash'' ''gemini'' \<and> \<not> includes_str ''gemini-2.5-flash'' ''gemma''
           \<and> \<not> includes_str ''gemini-2.5-flash'' ''claude''"
    by simp
  have m: "includes_str ''gemma-7b'' ''gemma''"
    by simp
  from getModelProvider_gemini [OF r n(1), of "''gemini-2.5-flash''" True] g
       getModelProvider_gemini [OF r n(2), of "''gemma-7b''" False] m
  show ?thesis by blast
qed

subsection \<open>Endpoint resolver\<close>

text \<open>Whatever is stored, the resolved base is the default or a secure URL that names
  none of the known vendor hosts.\<close>

lemma getConfiguredOpenAIBase_safe:
  "getConfiguredOpenAIBase e w = OPENAI_BASE e
   \<or> (isSecureEndpoint e (getConfiguredOpenAIBase e w)
       \<and> \<not> list_ex (includes_str (getConfiguredOpenAIBase e w)) knownNonOpenAIUrls)"
  by (simp add: getConfiguredOpenAIBase_def Let_def split: option.splits)

lemma getConfiguredOpenAIBase_known_vendor:
  assumes "localStorage w = Some ls" and "ls ''reasoningProvider'' = Some ''custom''"
      and "ls ''cloudReasoningBaseUrl'' = Some stored"
      and "host \<in> set knownNonOpenAIUrls"
      and "normalizeBaseUrl e (trim stored) = scheme @ host @ path"
  shows "getConfiguredOpenAIBase e w = OPENAI_BASE e"
proof -
  have "includes_str (normalizeBaseUrl e (trim stored)) host"
    unfolding assms(5) by (rule includes_append)
  with assms(4) have "list_ex (includes_str (normalizeBaseUrl e (trim stored))) knownNonOpenAIUrls"
    by (auto simp: list_ex_iff)
  with assms(1-3) show ?thesis
    by (simp add: getConfiguredOpenAIBase_def Let_def)
qed

text \<open>
  C6. With the provider set to \<open>custom\<close>, base-URL resolution returns the default OpenAI
  base when the stored custom base is \<open>https://api.anthropic.com/v1\<close> (whose normalised
  form still names the vendor host), when it is blank, and when its normalised form
  fails the secure-transport check.
\<close>

theorem getConfiguredOpenAIBase_rejects:
  assumes "localStorage w = Some ls" and "ls ''reasoningProvider'' = Some ''custom''"
  shows "(ls ''cloudReasoningBaseUrl'' = Some ''https://api.anthropic.com/v1''
            \<and> includes_str (normalizeBaseUrl e ''https://api.anthropic.com/v1'') ''api.anthropic.com''
          \<longrightarrow> getConfiguredOpenAIBase e w = OPENAI_BASE e)
       \<and> (trim (orEmpty (ls ''cloudReasoningBaseUrl'')) = []
          \<longrightarrow> getConfiguredOpenAIBase e w = OPENAI_BASE e)
       \<and> (\<not> isSecureEndpoint e (normalizeBaseUrl e (trim (orEmpty (ls ''cloudReasoningBaseUrl''))))
          \<longrightarrow> getConfiguredOpenAIBase e w = OPENAI_BASE e)"
proof -
  have t: "trim ''https://api.anthropic.com/v1'' = ''https://api.anthropic.com/v1''"
    by (simp add: trim_def isWhiteSpace_def isWhiteSpace2_def isWhiteSpace3_def)
  show ?thesis
    using assms t by (auto simp: getConfiguredOpenAIBase_def Let_def knownNonOpenAIUrls_def)
qed

theorem getConfiguredOpenAIBase_rejects_witness:
  "getConfiguredOpenAIBase demoEnv
     (demoWorld\<lparr>localStorage :=
        Some [''reasoningProvider'' \<mapsto> ''custom'',
              ''cloudReasoningBaseUrl'' \<mapsto> ''https://api.anthropic.com/v1'']\<rparr>)
   = ''https://api.openai.com/v1''"
proof -
  let ?ls = "[''reasoningProvider'' \<mapsto> ''custom'',
              ''cloudReasoningBaseUrl'' \<mapsto> ''https://api.anthropic.com/v1'']"
  let ?w = "demoWorld\<lparr>localStorage := Some ?ls\<rparr>"
  have h1: "localStorage ?w = Some ?ls" by simp
  have h2: "?ls ''reasoningProvider'' = Some ''custom''" by simp
  have h3: "?ls ''cloudReasoningBaseUrl'' = Some ''https://api.anthropic.com/v1''" by simp
  have h4: "includes_str (normalizeBaseUrl demoEnv ''https://api.anthropic.com/v1'') ''api.anthropic.com''"
    by (simp add: demoEnv_def)
  have h5: "OPENAI_BASE demoEnv = ''https://api.openai.com/v1''" by (simp add: demoEnv_def)
  from getConfiguredOpenAIBase_rejects [OF h1 h2, of demoEnv] h3 h4 h5 show ?thesis
    by presburger
qed

text \<open>
  C2, as the code has it. The claim as stated fails for a remembered \<open>responses\<close>
  preference: only \<open>chat\<close> is tested, so both candidates are returned.
\<close>

theorem getOpenAIEndpointCandidates_responses_counterexample:
  "\<not> endsWith (toLowerCase ''https://api.openai.com/v1'') ''/responses''
   \<and> \<not> endsWith (toLowerCase ''https://api.openai.com/v1'') ''/chat/completions''
   \<and> fst (getStoredOpenAiPreference demoEnv ''https://api.openai.com/v1''
        (demoWorld\<lparr>openAiEndpointPreference := [''https://api.openai.com/v1'' \<mapsto> Responses]\<rparr>))
       = Some Responses
   \<and> fst (getOpenAIEndpointCandidates demoEnv ''https://api.openai.com/v1''
        (demoWorld\<lparr>openAiEndpointPreference := [''https://api.openai.com/v1'' \<mapsto> Responses]\<rparr>))
       = [\<lparr>url = ''https://api.openai.com/v1/responses'', type = Responses\<rparr>,
          \<lparr>url = ''https://api.openai.com/v1/chat/completions'', type = Chat\<rparr>]"
  by (simp add: getOpenAIEndpointCandidates_def getStoredOpenAiPreference_def demoWorld_def
      demoEnv_def endsWith_def toLowerCase_def lowerChar_def)

text \<open>
  C2 (amended). For a base URL that does not end in a dialect-specific path suffix: a
  remembered \<open>chat\<close> preference gives exactly the chat candidate; a remembered \<open>responses\<close>
  preference, like no preference, gives both candidates, responses first and chat
  second.
\<close>

theorem getOpenAIEndpointCandidates_by_preference:
  assumes "\<not> endsWith (toLowerCase base) ''/responses''"
      and "\<not> endsWith (toLowerCase base) ''/chat/completions''"
  shows "fst (getOpenAIEndpointCandidates e base w) =
     (case fst (getStoredOpenAiPreference e base w) of
        Some Chat \<Rightarrow> [\<lparr>url = buildApiUrl e base ''/chat/completions'', type = Chat\<rparr>]
      | Some Responses \<Rightarrow>
          [\<lparr>url = buildApiUrl e base ''/responses'', type = Responses\<rparr>,
           \<lparr>url = buildApiUrl e base ''/chat/completions'', type = Chat\<rparr>]
      | None \<Rightarrow>
          [\<lparr>url = buildApiUrl e base ''/responses'', type = Responses\<rparr>,
           \<lparr>url = buildApiUrl e base ''/chat/completions'', type = Chat\<rparr>])"
  using assms
  by (simp add: getOpenAIEndpointCandidates_def Let_def
      split: prod.splits option.splits dialect.splits)

theorem getOpenAIEndpointCandidates_by_preference_witness:
  "fst (getOpenAIEndpointCandidates demoEnv ''https://api.openai.com/v1''
      (demoWorld\<lparr>openAiEndpointPreference := [''https://api.openai.com/v1'' \<mapsto> Chat]\<rparr>))
   = [\<lparr>url = ''https://api.openai.com/v1/chat/completions'', type = Chat\<rparr>]"
proof -
  let ?base = "''https://api.openai.com/v1''"
  let ?w = "demoWorld\<lparr>openAiEndpointPreference := [?base \<mapsto> Chat]\<rparr>"
  have h1: "\<not> endsWith (toLowerCase ?base) ''/responses''"
    by (simp add: endsWith_def toLowerCase_def lowerChar_def)
  have h2: "\<not> endsWith (toLowerCase ?base) ''/chat/completions''"
    by (simp add: endsWith_def toLowerCase_def lowerChar_def)
  have h3: "fst (getStoredOpenAiPreference demoEnv ?base ?w) = Some Chat"
    by (simp add: getStoredOpenAiPreference_def)
  have h4: "buildApiUrl demoEnv ?base ''/chat/completions'' = ''https://api.openai.com/v1/chat/completions''"
    by (simp add: demoEnv_def)
  from getOpenAIEndpointCandidates_by_preference [OF h1 h2, of demoEnv ?w] h3 h4
  show ?thesis by simp
qed

subsection \<open>Credential resolver\<close>

lemma trim_Nil: "trim [] = []"
  by (simp add: trim_def)

text \<open>
  C3, as the code has it. The claim as stated fails for the custom provider: with no key
  behind the IPC bridge and none in the local setting, the lookup succeeds with the
  empty string.
\<close>

theorem getApiKey_custom_counterexample:
  "getCustomReasoningKey demoEnv = None \<and> getItem demoWorld ''customReasoningApiKey'' = None
   \<and> apiKeyCache demoWorld Custom = None
   \<and> getApiKey demoEnv Custom demoWorld = (Inr [], demoWorld)"
  by (simp add: getApiKey_def demoEnv_def demoWorld_def getItem_def trim_def)

text \<open>
  C3 (amended). For every provider other than custom, the lookup returns the cached key
  when the cache holds a non-empty one, else the non-empty key the secure store gives
  (and caches it), and fails with the credential-missing error when neither has one; it
  never returns an empty secret as a success. For the custom provider the lookup never
  fails and does not use the cache: it returns the trimmed key of the secure store or,
  when that is blank, of the local setting, which is the empty string when neither holds
  a key.
\<close>

theorem getApiKey_contract:
  "(p \<noteq> Custom \<longrightarrow>
      (orEmpty (apiKeyCache w p) \<noteq> [] \<longrightarrow>
         getApiKey e p w = (Inr (orEmpty (apiKeyCache w p)), w))
      \<and> (orEmpty (apiKeyCache w p) = [] \<and> keyOrEmpty (keyGetters e p) \<noteq> [] \<longrightarrow>
         getApiKey e p w =
           (Inr (keyOrEmpty (keyGetters e p)),
            w\<lparr>apiKeyCache := (apiKeyCache w)(p \<mapsto> keyOrEmpty (keyGetters e p))\<rparr>))
      \<and> (orEmpty (apiKeyCache w p) = [] \<and> keyOrEmpty (keyGetters e p) = [] \<longrightarrow>
         getApiKey e p w =
           (Inl (Error (capitalize (providerName p) @ '' API key not configured'')), w))
      \<and> fst (getApiKey e p w) \<noteq> Inr [])
   \<and> getApiKey e Custom w =
       (Inr (trim (if trim (case getCustomReasoningKey e of None \<Rightarrow> [] | Some r \<Rightarrow> keyOrEmpty r) = []
                   then orEmpty (getItem w ''customReasoningApiKey'')
                   else (case getCustomReasoningKey e of None \<Rightarrow> [] | Some r \<Rightarrow> keyOrEmpty r))), w)"
  by (auto simp: getApiKey_def Let_def trim_Nil)

theorem getApiKey_contract_witness:
  "getApiKey demoEnv OpenAI demoWorld = (Inl (Error ''Openai API key not configured''), demoWorld)
   \<and> getApiKey (demoEnv\<lparr>keyGetters := (\<lambda>p. KeyResolved (Some ''sk-1''))\<rparr>) Gemini demoWorld
       = (Inr ''sk-1'', demoWorld\<lparr>apiKeyCache := [Gemini \<mapsto> ''sk-1'']\<rparr>)"
proof -
  let ?e = "demoEnv\<lparr>keyGetters := (\<lambda>p. KeyResolved (Some ''sk-1''))\<rparr>"
  have c: "capitalize (providerName OpenAI) @ '' API key not configured'' = ''Openai API key not configured''"
    by code_simp
  have h1: "orEmpty (apiKeyCache demoWorld OpenAI) = [] \<and> keyOrEmpty (keyGetters demoEnv OpenAI) = []"
    by (simp add: demoWorld_def demoEnv_def)
  have h2: "orEmpty (apiKeyCache demoWorld Gemini) = [] \<and> keyOrEmpty (keyGetters ?e Gemini) = ''sk-1''"
    by (simp add: demoWorld_def)
  have h3: "apiKeyCache demoWorld = Map.empty"
    by (simp add: demoWorld_def)
  from getApiKey_contract [of OpenAI demoWorld demoEnv] h1 c
  have a: "getApiKey demoEnv OpenAI demoWorld = (Inl (Error ''Openai API key not configured''), demoWorld)"
    by simp
  from getApiKey_contract [of Gemini demoWorld ?e] h2 h3
  have b: "getApiKey ?e Gemini demoWorld = (Inr ''sk-1'', demoWorld\<lparr>apiKeyCache := [Gemini \<mapsto> ''sk-1'']\<rparr>)"
    by simp
  from a b show ?thesis by simp
qed


subsection \<open>Transport\<close>

lemma withRetry_success:
  assumes "fn w = (Inr v, w')"
  shows "withRetry fn strategy w = (Inr v, w')"
  using assms by (cases "maxRetries strategy") (simp_all add: withRetry_def)

lemma getApiKey_frame:
  "isProcessing (snd (getApiKey e p w)) = isProcessing w"
  "fetchCount (snd (getApiKey e p w)) = fetchCount w"
  "localStorage (snd (getApiKey e p w)) = localStorage w"
  "openAiEndpointPreference (snd (getApiKey e p w)) = openAiEndpointPreference w"
  by (simp_all add: getApiKey_def Let_def)

lemma getConfiguredOpenAIBase_cong:
  "localStorage w' = localStorage w \<Longrightarrow> getConfiguredOpenAIBase e w' = getConfiguredOpenAIBase e w"
  by (simp add: getConfiguredOpenAIBase_def)

lemma getStoredOpenAiPreference_fst:
  "fst (getStoredOpenAiPreference e base w) =
     (case openAiEndpointPreference w base of
        Some d \<Rightarrow> Some d
      | None \<Rightarrow>
          (case localStorage w of
             None \<Rightarrow> None
           | Some ls \<Rightarrow>
               if orEmpty (ls OPENAI_ENDPOINT_PREF_STORAGE_KEY) = [] then None
               else
                 (case JSON_parse e (orEmpty (ls OPENAI_ENDPOINT_PREF_STORAGE_KEY)) of
                    None \<Rightarrow> None
                  | Some parsed \<Rightarrow>
                      if \<not> isObject parsed then None
                      else dialectOf (optProp (Some parsed) base))))"
  by (simp add: getStoredOpenAiPreference_def Let_def split: option.splits)

lemma getStoredOpenAiPreference_cong:
  assumes "localStorage w' = localStorage w"
      and "openAiEndpointPreference w' = openAiEndpointPreference w"
  shows "fst (getStoredOpenAiPreference e base w') = fst (getStoredOpenAiPreference e base w)"
  unfolding getStoredOpenAiPreference_fst assms ..

lemma getStoredOpenAiPreference_frame:
  "fetchCount (snd (getStoredOpenAiPreference e base w)) = fetchCount w"
  "isProcessing (snd (getStoredOpenAiPreference e base w)) = isProcessing w"
  "localStorage (snd (getStoredOpenAiPreference e base w)) = localStorage w"
  by (simp_all add: getStoredOpenAiPreference_def Let_def split: option.splits)

lemma getStoredOpenAiPreference_hit:
  "openAiEndpointPreference w base = Some d \<Longrightarrow> getStoredOpenAiPreference e base w = (Some d, w)"
  by (simp add: getStoredOpenAiPreference_def)

lemma getOpenAIEndpointCandidates_cong:
  assumes "localStorage w' = localStorage w"
      and "openAiEndpointPreference w' = openAiEndpointPreference w"
  shows "fst (getOpenAIEndpointCandidates e base w') = fst (getOpenAIEndpointCandidates e base w)"
proof -
  obtain d v where a: "getStoredOpenAiPreference e base w = (d, v)"
    by (cases "getStoredOpenAiPreference e base w")
  obtain d' v' where b: "getStoredOpenAiPreference e base w' = (d', v')"
    by (cases "getStoredOpenAiPreference e base w'")
  have "d' = d"
    using getStoredOpenAiPreference_cong [OF assms, of e base] a b by simp
  then show ?thesis
    by (simp add: getOpenAIEndpointCandidates_def Let_def a b)
qed

lemma getOpenAIEndpointCandidates_frame:
  "fetchCount (snd (getOpenAIEndpointCandidates e base w)) = fetchCount w"
  "isProcessing (snd (getOpenAIEndpointCandidates e base w)) = isProcessing w"
  "localStorage (snd (getOpenAIEndpointCandidates e base w)) = localStorage w"
proof -
  obtain d v where a: "getStoredOpenAiPreference e base w = (d, v)"
    by (cases "getStoredOpenAiPreference e base w")
  have v: "fetchCount v = fetchCount w" "isProcessing v = isProcessing w"
          "localStorage v = localStorage w"
    using getStoredOpenAiPreference_frame [of e base w] a by simp_all
  show "fetchCount (snd (getOpenAIEndpointCandidates e base w)) = fetchCount w"
    by (simp add: getOpenAIEndpointCandidates_def Let_def a v)
  show "isProcessing (snd (getOpenAIEndpointCandidates e base w)) = isProcessing w"
    by (simp add: getOpenAIEndpointCandidates_def Let_def a v)
  show "localStorage (snd (getOpenAIEndpointCandidates e base w)) = localStorage w"
    by (simp add: getOpenAIEndpointCandidates_def Let_def a v)
qed

lemma rememberOpenAiPreference_sel:
  "openAiEndpointPreference (rememberOpenAiPreference e base d w) = (openAiEndpointPreference w)(base \<mapsto> d)"
  "fetchCount (rememberOpenAiPreference e base d w) = fetchCount w"
  "isProcessing (rememberOpenAiPreference e base d w) = isProcessing w"
  by (simp_all add: rememberOpenAiPreference_def Let_def split: option.splits)

lemma tryCandidates_first_ok:
  assumes "fetch e (fetchCount w) (url c) = Responded res" and "ok res"
      and "resJson e res = Some response"
  shows "tryCandidates e base (c # cs) lastError w =
           (Inr response, rememberOpenAiPreference e base (type c) (w\<lparr>fetchCount := Suc (fetchCount w)\<rparr>))"
  using assms by (simp add: Let_def)

lemma not_ok_404_405: "status res = 404 \<or> status res = 405 \<Longrightarrow> \<not> ok res"
  by (auto simp: ok_def)

lemma tryCandidates_fallback:
  assumes r1: "fetch e (fetchCount w) u1 = Responded res1" and s1: "status res1 = 404 \<or> status res1 = 405"
      and r2: "fetch e (Suc (fetchCount w)) u2 = Responded res2" and s2: "ok res2"
      and body: "resJson e res2 = Some response"
  shows "\<exists>w'. tryCandidates e base [\<lparr>url = u1, type = Responses\<rparr>, \<lparr>url = u2, type = Chat\<rparr>] None w
               = (Inr response, w')
             \<and> openAiEndpointPreference w' = (openAiEndpointPreference w)(base \<mapsto> Chat)
             \<and> fetchCount w' = Suc (Suc (fetchCount w))
             \<and> isProcessing w' = isProcessing w"
proof -
  let ?w1 = "w\<lparr>fetchCount := Suc (fetchCount w)\<rparr>"
  have bad: "\<not> ok res1" using s1 by (rule not_ok_404_405)
  show ?thesis
  proof (cases "openAiErrorMessage e res1")
    case (Inl x)
    then show ?thesis
      using r1 bad r2 s2 body by (simp add: Let_def rememberOpenAiPreference_sel)
  next
    case (Inr msg)
    then show ?thesis
      using r1 bad s1 r2 s2 body by (simp add: Let_def rememberOpenAiPreference_sel)
  qed
qed


text \<open>States that agree on what the transport reads give the same transport result,
  so the result can be stated at the state in which \<open>processWithOpenAI\<close> is called.\<close>

lemma getStoredOpenAiPreference_snd:
  "snd (getStoredOpenAiPreference e base w) =
     (case fst (getStoredOpenAiPreference e base w) of
        None \<Rightarrow> w
      | Some d \<Rightarrow> w\<lparr>openAiEndpointPreference := (openAiEndpointPreference w)(base \<mapsto> d)\<rparr>)"
  by (simp add: getStoredOpenAiPreference_def Let_def map_upd_triv split: option.splits)

lemma getStoredOpenAiPreference_agree:
  assumes "agree w w'"
  shows "fst (getStoredOpenAiPreference e base w) = fst (getStoredOpenAiPreference e base w')"
    and "agree (snd (getStoredOpenAiPreference e base w)) (snd (getStoredOpenAiPreference e base w'))"
proof -
  show eq: "fst (getStoredOpenAiPreference e base w) = fst (getStoredOpenAiPreference e base w')"
    using assms by (intro getStoredOpenAiPreference_cong) (simp_all add: agree_def)
  show "agree (snd (getStoredOpenAiPreference e base w)) (snd (getStoredOpenAiPreference e base w'))"
    unfolding getStoredOpenAiPreference_snd eq
    using assms by (cases "fst (getStoredOpenAiPreference e base w')") (simp_all add: agree_def)
qed

lemma getOpenAIEndpointCandidates_agree:
  assumes "agree w w'"
  shows "fst (getOpenAIEndpointCandidates e base w) = fst (getOpenAIEndpointCandidates e base w')"
    and "agree (snd (getOpenAIEndpointCandidates e base w)) (snd (getOpenAIEndpointCandidates e base w'))"
proof -
  obtain d v where a: "getStoredOpenAiPreference e base w = (d, v)"
    by (cases "getStoredOpenAiPreference e base w")
  obtain d' v' where b: "getStoredOpenAiPreference e base w' = (d', v')"
    by (cases "getStoredOpenAiPreference e base w'")
  have d: "d = d'" and v: "agree v v'"
    using getStoredOpenAiPreference_agree [OF assms, of e base] a b by simp_all
  show "fst (getOpenAIEndpointCandidates e base w) = fst (getOpenAIEndpointCandidates e base w')"
    by (simp add: getOpenAIEndpointCandidates_def Let_def a b d)
  show "agree (snd (getOpenAIEndpointCandidates e base w)) (snd (getOpenAIEndpointCandidates e base w'))"
    using assms v by (simp add: getOpenAIEndpointCandidates_def Let_def a b d)
qed

lemma rememberOpenAiPreference_agree:
  assumes "agree w w'"
  shows "agree (rememberOpenAiPreference e base d w) (rememberOpenAiPreference e base d w')"
proof (cases "localStorage w'")
  case None
  with assms show ?thesis by (simp add: rememberOpenAiPreference_def Let_def agree_def)
next
  case (Some ls)
  with assms have l: "localStorage w = Some ls" by (simp add: agree_def)
  show ?thesis
    using assms Some l
    by (cases "if orEmpty (ls OPENAI_ENDPOINT_PREF_STORAGE_KEY) = [] then Some (JObj [])
               else JSON_parse e (orEmpty (ls OPENAI_ENDPOINT_PREF_STORAGE_KEY))")
       (simp_all add: rememberOpenAiPreference_def Let_def agree_def)
qed

lemma agree_fetched:
  "agree w w' \<Longrightarrow> agree (w\<lparr>fetchCount := Suc (fetchCount w)\<rparr>) (w'\<lparr>fetchCount := Suc (fetchCount w')\<rparr>)"
  by (simp add: agree_def)

lemma tryCandidates_agree:
  assumes "agree w w'"
  shows "fst (tryCandidates e base cands lastError w) = fst (tryCandidates e base cands lastError w')
       \<and> agree (snd (tryCandidates e base cands lastError w)) (snd (tryCandidates e base cands lastError w'))"
  using assms
proof (induction cands arbitrary: lastError w w')
  case Nil
  then show ?case by simp
next
  case (Cons c cs)
  let ?v = "w\<lparr>fetchCount := Suc (fetchCount w)\<rparr>"
  let ?v' = "w'\<lparr>fetchCount := Suc (fetchCount w')\<rparr>"
  have n: "fetchCount w = fetchCount w'" using Cons.prems by (simp add: agree_def)
  have v: "agree ?v ?v'" using Cons.prems by (rule agree_fetched)
  have r: "agree (rememberOpenAiPreference e base d ?v) (rememberOpenAiPreference e base d ?v')" for d
    using v by (rule rememberOpenAiPreference_agree)
  show ?case
  proof (cases "fetch e (fetchCount w') (url c)")
    case (Rejected x)
    then show ?thesis
      using Cons.IH [OF v, of "Some x"] v n by (simp add: Let_def)
  next
    case (Responded res)
    show ?thesis
    proof (cases "ok res")
      case True
      then show ?thesis
        using Responded r [of "type c"] n by (simp add: Let_def split: option.splits)
    next
      case False
      show ?thesis
      proof (cases "openAiErrorMessage e res")
        case (Inl x)
        then show ?thesis
          using Responded False Cons.IH [OF v, of "Some x"] v n by (simp add: Let_def)
      next
        case (Inr msg)
        then show ?thesis
          using Responded False Cons.IH [OF v, of "Some (Error msg)"]
                Cons.IH [OF r [of Chat], of "Some (Error msg)"] v n
          by (simp add: Let_def)
      qed
    qed
  qed
qed

lemma withRetryFrom_agree:
  assumes fn: "\<And>v v'. agree v v' \<Longrightarrow> fst (fn v) = fst (fn v') \<and> agree (snd (fn v)) (snd (fn v'))"
      and "agree w w'"
  shows "fst (withRetryFrom n retry fn w) = fst (withRetryFrom n retry fn w')
       \<and> agree (snd (withRetryFrom n retry fn w)) (snd (withRetryFrom n retry fn w'))"
  using assms(2)
proof (induction n arbitrary: w w')
  case 0
  then show ?case using fn by simp
next
  case (Suc n)
  obtain r v where a: "fn w = (r, v)" by (cases "fn w")
  obtain r' v' where b: "fn w' = (r', v')" by (cases "fn w'")
  have rr: "r = r'" and vv: "agree v v'"
    using fn [OF Suc.prems] a b by simp_all
  show ?case
    using Suc.IH [OF vv] vv by (cases r') (simp_all add: a b rr)
qed

lemma openAiTransport_agree:
  assumes "agree w w'"
  shows "fst (openAiTransport e w) = fst (openAiTransport e w')"
proof -
  have b: "getConfiguredOpenAIBase e w = getConfiguredOpenAIBase e w'"
    using assms by (intro getConfiguredOpenAIBase_cong) (simp add: agree_def)
  let ?base = "getConfiguredOpenAIBase e w'"
  obtain cl wa where ca: "getOpenAIEndpointCandidates e ?base w = (cl, wa)"
    by (cases "getOpenAIEndpointCandidates e ?base w")
  obtain cl' wa' where ca': "getOpenAIEndpointCandidates e ?base w' = (cl', wa')"
    by (cases "getOpenAIEndpointCandidates e ?base w'")
  have cl: "cl = cl'" and wa: "agree wa wa'"
    using getOpenAIEndpointCandidates_agree [OF assms, of e ?base] ca ca' by simp_all
  obtain lg wb where st: "getStoredOpenAiPreference e ?base wa = (lg, wb)"
    by (cases "getStoredOpenAiPreference e ?base wa")
  obtain lg' wb' where st': "getStoredOpenAiPreference e ?base wa' = (lg', wb')"
    by (cases "getStoredOpenAiPreference e ?base wa'")
  have wb: "agree wb wb'"
    using getStoredOpenAiPreference_agree(2) [OF wa, of e ?base] st st' by simp
  have "fst (withRetry (tryCandidates e ?base cl' None) (createApiRetryStrategy e) wb)
          = fst (withRetry (tryCandidates e ?base cl' None) (createApiRetryStrategy e) wb')"
    unfolding withRetry_def
    using withRetryFrom_agree [where fn = "tryCandidates e ?base cl' None", OF tryCandidates_agree wb]
    by simp
  then show ?thesis
    by (simp add: openAiTransport_def Let_def b ca ca' cl st st')
qed

lemma processWithOpenAI_resume_transport:
  "processWithOpenAI_resume e text model apiKey w0 =
     (case openAiTransport e (w0\<lparr>isProcessing := True\<rparr>) of
        (Inl x, w3) \<Rightarrow> (Inl x, w3\<lparr>isProcessing := False\<rparr>)
      | (Inr response, w3) \<Rightarrow>
          (case extractOpenAIText response of
             Inl x \<Rightarrow> (Inl x, w3\<lparr>isProcessing := False\<rparr>)
           | Inr responseText \<Rightarrow>
               (Inr (if responseText = [] then text else responseText),
                w3\<lparr>isProcessing := False\<rparr>)))"
  by (simp add: processWithOpenAI_resume_def openAiTransport_def Let_def split: prod.splits)

text \<open>Two ways in which the transport delivers a body: the first candidate answers 200;
  or the responses candidate answers 404 or 405 and the chat candidate then answers
  200 within the same attempt.\<close>

lemma openAiTransport_first_candidate:
  assumes cands: "fst (getOpenAIEndpointCandidates e (getConfiguredOpenAIBase e w) w) = c # cs"
      and net: "fetch e (fetchCount w) (url c) = Responded res"
      and good: "ok res"
      and body: "resJson e res = Some response"
  shows "fst (openAiTransport e w) = Inr response"
proof -
  let ?base = "getConfiguredOpenAIBase e w"
  obtain cl wa where ca: "getOpenAIEndpointCandidates e ?base w = (cl, wa)"
    by (cases "getOpenAIEndpointCandidates e ?base w")
  have cl: "cl = c # cs" using ca cands by simp
  have fa: "fetchCount wa = fetchCount w"
    using getOpenAIEndpointCandidates_frame(1) [of e ?base w] ca by simp
  obtain lg wb where st: "getStoredOpenAiPreference e ?base wa = (lg, wb)"
    by (cases "getStoredOpenAiPreference e ?base wa")
  have fb: "fetchCount wb = fetchCount w"
    using getStoredOpenAiPreference_frame(1) [of e ?base wa] st fa by simp
  have "tryCandidates e ?base (c # cs) None wb =
          (Inr response,
           rememberOpenAiPreference e ?base (type c) (wb\<lparr>fetchCount := Suc (fetchCount wb)\<rparr>))"
    using net good body fb by (intro tryCandidates_first_ok) simp_all
  then have "fst (withRetry (tryCandidates e ?base (c # cs) None) (createApiRetryStrategy e) wb)
               = Inr response"
    by (simp add: withRetry_success)
  then show ?thesis
    by (simp add: openAiTransport_def Let_def ca cl st)
qed

lemma openAiTransport_fallback:
  assumes base: "base = getConfiguredOpenAIBase e w"
      and plain: "\<not> endsWith (toLowerCase base) ''/responses''"
                 "\<not> endsWith (toLowerCase base) ''/chat/completions''"
      and fresh: "fst (getStoredOpenAiPreference e base w) \<noteq> Some Chat"
      and r1: "fetch e (fetchCount w) (buildApiUrl e base ''/responses'') = Responded res1"
      and s1: "status res1 = 404 \<or> status res1 = 405"
      and r2: "fetch e (Suc (fetchCount w)) (buildApiUrl e base ''/chat/completions'') = Responded res2"
      and s2: "ok res2"
      and body: "resJson e res2 = Some response"
  shows "fst (openAiTransport e w) = Inr response"
proof -
  obtain cl wa where ca: "getOpenAIEndpointCandidates e base w = (cl, wa)"
    by (cases "getOpenAIEndpointCandidates e base w")
  have "cl = fst (getOpenAIEndpointCandidates e base w)" using ca by simp
  also have "\<dots> = [\<lparr>url = buildApiUrl e base ''/responses'', type = Responses\<rparr>,
                    \<lparr>url = buildApiUrl e base ''/chat/completions'', type = Chat\<rparr>]"
    using plain fresh
    by (cases "getStoredOpenAiPreference e base w")
       (simp add: getOpenAIEndpointCandidates_def Let_def)
  finally have cl: "cl = [\<lparr>url = buildApiUrl e base ''/responses'', type = Responses\<rparr>,
                    \<lparr>url = buildApiUrl e base ''/chat/completions'', type = Chat\<rparr>]" .
  have fa: "fetchCount wa = fetchCount w"
    using getOpenAIEndpointCandidates_frame(1) [of e base w] ca by simp
  obtain lg wb where st: "getStoredOpenAiPreference e base wa = (lg, wb)"
    by (cases "getStoredOpenAiPreference e base wa")
  have fb: "fetchCount wb = fetchCount w"
    using getStoredOpenAiPreference_frame(1) [of e base wa] st fa by simp
  obtain wc where tr: "tryCandidates e base cl None wb = (Inr response, wc)"
    using tryCandidates_fallback [of e wb "buildApiUrl e base ''/responses''" res1
            "buildApiUrl e base ''/chat/completions''" res2 response base]
          r1 s1 r2 s2 body fb cl
    by auto
  then have "fst (withRetry (tryCandidates e base cl None) (createApiRetryStrategy e) wb)
               = Inr response"
    by (simp add: withRetry_success)
  then show ?thesis
    by (simp add: openAiTransport_def Let_def base [symmetric] ca st)
qed

subsection \<open>Dialect fallback\<close>

text \<open>
  C1. A call that finds the service idle and gets its key, for a base URL with no dialect
  suffix and no remembered chat preference: when the responses candidate answers 404 (or
  405) and the chat-completions candidate answers 200 with a body from which the
  non-blank text \<open>t\<close> is extracted, \<open>processWithOpenAI\<close> returns \<open>t\<close> after these two
  requests, the preference \<open>chat\<close> is remembered for the base, and candidate resolution
  for the same base then gives the chat candidate alone.
\<close>

theorem processWithOpenAI_dialect_fallback:
  assumes enter: "processWithOpenAI_enter w = Inr p"
      and key: "fst (getApiKey e p w) = Inr apiKey"
      and base: "base = getConfiguredOpenAIBase e w"
      and plain: "\<not> endsWith (toLowerCase base) ''/responses''"
                 "\<not> endsWith (toLowerCase base) ''/chat/completions''"
      and fresh: "fst (getStoredOpenAiPreference e base w) \<noteq> Some Chat"
      and r1: "fetch e (fetchCount w) (buildApiUrl e base ''/responses'') = Responded res1"
      and s1: "status res1 = 404 \<or> status res1 = 405"
      and r2: "fetch e (Suc (fetchCount w)) (buildApiUrl e base ''/chat/completions'') = Responded res2"
      and s2: "status res2 = 200"
      and body: "resJson e res2 = Some response"
      and extracted: "extractOpenAIText response = Inr t" "t \<noteq> []"
  shows "fst (processWithOpenAI e text model w) = Inr t
       \<and> fetchCount (snd (processWithOpenAI e text model w)) = fetchCount w + 2
       \<and> openAiEndpointPreference (snd (processWithOpenAI e text model w)) base = Some Chat
       \<and> fst (getStoredOpenAiPreference e base (snd (processWithOpenAI e text model w))) = Some Chat
       \<and> fst (getOpenAIEndpointCandidates e base (snd (processWithOpenAI e text model w)))
           = [\<lparr>url = buildApiUrl e base ''/chat/completions'', type = Chat\<rparr>]"
proof -
  obtain w1 where k: "getApiKey e p w = (Inr apiKey, w1)"
    using key by (cases "getApiKey e p w") simp
  have fr: "fetchCount w1 = fetchCount w" "localStorage w1 = localStorage w"
       "openAiEndpointPreference w1 = openAiEndpointPreference w"
    using getApiKey_frame [of e p w] k by simp_all
  let ?w = "w1\<lparr>isProcessing := True\<rparr>"
  have b: "getConfiguredOpenAIBase e ?w = base"
    unfolding base by (rule getConfiguredOpenAIBase_cong) (simp add: fr)
  obtain cl wa where ca: "getOpenAIEndpointCandidates e base ?w = (cl, wa)"
    by (cases "getOpenAIEndpointCandidates e base ?w")
  have pref: "fst (getStoredOpenAiPreference e base ?w) \<noteq> Some Chat"
  proof -
    have "fst (getStoredOpenAiPreference e base ?w) = fst (getStoredOpenAiPreference e base w)"
      by (rule getStoredOpenAiPreference_cong) (simp_all add: fr)
    with fresh show ?thesis by simp
  qed
  have "cl = fst (getOpenAIEndpointCandidates e base ?w)" using ca by simp
  also have "\<dots> = [\<lparr>url = buildApiUrl e base ''/responses'', type = Responses\<rparr>,
                    \<lparr>url = buildApiUrl e base ''/chat/completions'', type = Chat\<rparr>]"
    using plain pref
    by (cases "getStoredOpenAiPreference e base ?w")
       (simp add: getOpenAIEndpointCandidates_def Let_def)
  finally have cl: "cl = [\<lparr>url = buildApiUrl e base ''/responses'', type = Responses\<rparr>,
                    \<lparr>url = buildApiUrl e base ''/chat/completions'', type = Chat\<rparr>]" .
  have fa: "fetchCount wa = fetchCount w"
    using getOpenAIEndpointCandidates_frame(1) [of e base ?w] ca fr by simp
  obtain lg wb where st: "getStoredOpenAiPreference e base wa = (lg, wb)"
    by (cases "getStoredOpenAiPreference e base wa")
  have fb: "fetchCount wb = fetchCount w"
    using getStoredOpenAiPreference_frame(1) [of e base wa] st fa by simp
  have good: "ok res2" using s2 by (simp add: ok_def)
  obtain wc where tr: "tryCandidates e base cl None wb = (Inr response, wc)"
      and pc: "openAiEndpointPreference wc = (openAiEndpointPreference wb)(base \<mapsto> Chat)"
      and fc: "fetchCount wc = Suc (Suc (fetchCount wb))"
    using tryCandidates_fallback [of e wb "buildApiUrl e base ''/responses''" res1
            "buildApiUrl e base ''/chat/completions''" res2 response base]
          r1 s1 r2 good body fb cl
    by auto
  have rt: "withRetry (tryCandidates e base cl None) (createApiRetryStrategy e) wb = (Inr response, wc)"
    using tr by (simp add: withRetry_success)
  let ?final = "wc\<lparr>isProcessing := False\<rparr>"
  have res: "processWithOpenAI_resume e text model apiKey w1 = (Inr t, ?final)"
    unfolding processWithOpenAI_resume_def Let_def b ca prod.case st rt
    by (simp add: extracted)
  have whole: "processWithOpenAI e text model w = (Inr t, ?final)"
    using enter k res by (simp add: processWithOpenAI_def)
  have remembered: "openAiEndpointPreference ?final base = Some Chat"
    by (simp add: pc)
  have stored: "getStoredOpenAiPreference e base ?final = (Some Chat, ?final)"
    using remembered by (rule getStoredOpenAiPreference_hit)
  have next_call: "fst (getOpenAIEndpointCandidates e base ?final)
                     = [\<lparr>url = buildApiUrl e base ''/chat/completions'', type = Chat\<rparr>]"
    using plain by (simp add: getOpenAIEndpointCandidates_def Let_def stored)
  show ?thesis
    unfolding whole using remembered stored next_call fc fb by simp
qed

lemma trim_hello: "trim '' Hello world. '' = ''Hello world.''"
  by (simp add: trim_def isWhiteSpace_def isWhiteSpace2_def isWhiteSpace3_def)

theorem processWithOpenAI_dialect_fallback_witness:
  "fst (processWithOpenAI chatOnlyEnv ''hello wrld'' ''gpt-5'' demoWorld) = Inr ''Hello world.''
   \<and> fetchCount (snd (processWithOpenAI chatOnlyEnv ''hello wrld'' ''gpt-5'' demoWorld)) = 2
   \<and> fst (getOpenAIEndpointCandidates chatOnlyEnv ''https://api.openai.com/v1''
            (snd (processWithOpenAI chatOnlyEnv ''hello wrld'' ''gpt-5'' demoWorld)))
       = [\<lparr>url = ''https://api.openai.com/v1/chat/completions'', type = Chat\<rparr>]"
proof -
  let ?base = "''https://api.openai.com/v1''"
  let ?res1 = "\<lparr>status = 404, statusText = ''Not Found'', bodyText = []\<rparr>"
  let ?res2 = "\<lparr>status = 200, statusText = ''OK'', bodyText = ''completion''\<rparr>"
  let ?response = "JObj [(''choices'',
                       JArr [JObj [(''message'', JObj [(''content'', JStr '' Hello world. '')])]])]"
  have enter: "processWithOpenAI_enter demoWorld = Inr OpenAI"
    by (simp add: processWithOpenAI_enter_def demoWorld_def getItem_def)
  have key: "fst (getApiKey chatOnlyEnv OpenAI demoWorld) = Inr ''sk-test''"
    by (simp add: getApiKey_def Let_def chatOnlyEnv_def demoWorld_def)
  have base: "?base = getConfiguredOpenAIBase chatOnlyEnv demoWorld"
    by (simp add: getConfiguredOpenAIBase_def chatOnlyEnv_def demoEnv_def demoWorld_def)
  have plain: "\<not> endsWith (toLowerCase ?base) ''/responses''"
              "\<not> endsWith (toLowerCase ?base) ''/chat/completions''"
    by (simp_all add: endsWith_def toLowerCase_def lowerChar_def)
  have fresh: "fst (getStoredOpenAiPreference chatOnlyEnv ?base demoWorld) \<noteq> Some Chat"
    by (simp add: getStoredOpenAiPreference_def demoWorld_def)
  have u: "buildApiUrl chatOnlyEnv ?base ''/responses'' = ''https://api.openai.com/v1/responses''"
          "buildApiUrl chatOnlyEnv ?base ''/chat/completions'' = ''https://api.openai.com/v1/chat/completions''"
    by (simp_all add: chatOnlyEnv_def demoEnv_def)
  have c0: "fetchCount demoWorld = 0" by (simp add: demoWorld_def)
  have r1: "fetch chatOnlyEnv (fetchCount demoWorld) (buildApiUrl chatOnlyEnv ?base ''/responses'') = Responded ?res1"
    unfolding u by (simp add: chatOnlyEnv_def endsWith_def)
  have s1: "status ?res1 = 404 \<or> status ?res1 = 405" by simp
  have r2: "fetch chatOnlyEnv (Suc (fetchCount demoWorld)) (buildApiUrl chatOnlyEnv ?base ''/chat/completions'') = Responded ?res2"
    unfolding u by (simp add: chatOnlyEnv_def endsWith_def)
  have s2: "status ?res2 = 200" by simp
  have body: "resJson chatOnlyEnv ?res2 = Some ?response"
    by (simp add: resJson_def chatOnlyEnv_def)
  have extracted: "extractOpenAIText ?response = Inr ''Hello world.''" "''Hello world.'' \<noteq> []"
    by (simp_all add: extractOpenAIText_def rawResponseLogged_def trim_hello)
  from processWithOpenAI_dialect_fallback
         [OF enter key base plain fresh r1 s1 r2 s2 body extracted, of "''hello wrld''" "''gpt-5''"] u c0
  show ?thesis by simp
qed


subsection \<open>Empty completions\<close>

text \<open>A chat-completions body (an object with a \<open>choices\<close> array, no \<open>output\<close> array and no
  \<open>output_text\<close> string) is normalised by the loop over its choices alone.\<close>

lemma extractOpenAIText_chat_completions:
  assumes "map_of kvs ''choices'' = Some (JArr choices)"
      and "\<not> isArray (map_of kvs ''output'')"
      and "\<not> isString (map_of kvs ''output_text'')"
  shows "extractOpenAIText (JObj kvs) = Inr (scanChoices choices)"
proof -
  have "rawResponseLogged (JObj kvs) = Inr ()"
    using assms(2) by (cases "map_of kvs ''output''" rule: isArray.cases)
      (simp_all add: rawResponseLogged_def)
  moreover have "(case map_of kvs ''output'' of Some (JArr items) \<Rightarrow> scanOutput items | _ \<Rightarrow> Inr [])
                   = Inr []"
    using assms(2) by (cases "map_of kvs ''output''" rule: isArray.cases) simp_all
  ultimately show ?thesis
    using assms(1,3) by (simp add: extractOpenAIText_def)
qed

text \<open>
  C4. Whichever candidate answers, and on whichever attempt: when the transport of
  \<open>processWithOpenAI\<close> delivers a body that is structurally valid but yields no non-blank
  text (the normaliser ends with the empty string and no error), \<open>processWithOpenAI\<close>
  returns the original input text, not an error.
\<close>

theorem processWithOpenAI_empty_response:
  assumes enter: "processWithOpenAI_enter w = Inr p"
      and key: "fst (getApiKey e p w) = Inr apiKey"
      and transport: "fst (openAiTransport e w) = Inr response"
      and empty: "extractOpenAIText response = Inr []"
  shows "fst (processWithOpenAI e text model w) = Inr text"
proof -
  obtain w1 where k: "getApiKey e p w = (Inr apiKey, w1)"
    using key by (cases "getApiKey e p w") simp
  have "agree (w1\<lparr>isProcessing := True\<rparr>) w"
    using getApiKey_frame [of e p w] k by (simp add: agree_def)
  then have "fst (openAiTransport e (w1\<lparr>isProcessing := True\<rparr>)) = Inr response"
    using transport by (simp add: openAiTransport_agree)
  then obtain w3 where t: "openAiTransport e (w1\<lparr>isProcessing := True\<rparr>) = (Inr response, w3)"
    by (cases "openAiTransport e (w1\<lparr>isProcessing := True\<rparr>)") simp
  have "processWithOpenAI_resume e text model apiKey w1 = (Inr text, w3\<lparr>isProcessing := False\<rparr>)"
    by (simp add: processWithOpenAI_resume_transport t empty)
  then show ?thesis
    using enter k by (simp add: processWithOpenAI_def)
qed


text \<open>The specification's body \<open>{"choices": [{"message": {"content": ""}}]}\<close>, reached
  through the in-call fallback (404 on the responses dialect, then 200 on chat, two
  requests), and a body whose content is U+00A0 and a line feed.\<close>

theorem processWithOpenAI_empty_response_witness:
  "fst (processWithOpenAI emptyChatEnv ''um so like hello'' ''gpt-5'' demoWorld)
     = Inr ''um so like hello''
   \<and> fetchCount (snd (processWithOpenAI emptyChatEnv ''um so like hello'' ''gpt-5'' demoWorld)) = 2
   \<and> fst (processWithOpenAI blankChatEnv ''um so like hello'' ''gpt-5'' demoWorld)
     = Inr ''um so like hello''"
proof -
  let ?empty = "JObj [(''choices'', JArr [JObj [(''message'', JObj [(''content'', JStr [])])]])]"
  let ?blank = "JObj [(''choices'',
                  JArr [JObj [(''message'', JObj [(''content'', JStr [CHR 0xC2, CHR 0xA0, CHR 0x0A])])]])]"
  have enter: "processWithOpenAI_enter demoWorld = Inr OpenAI"
    by (simp add: processWithOpenAI_enter_def demoWorld_def getItem_def)
  have key1: "fst (getApiKey emptyChatEnv OpenAI demoWorld) = Inr ''sk-test''"
    by (simp add: getApiKey_def Let_def emptyChatEnv_def demoWorld_def)
  have key2: "fst (getApiKey blankChatEnv OpenAI demoWorld) = Inr ''sk-test''"
    by (simp add: getApiKey_def Let_def blankChatEnv_def demoWorld_def)
  have t1: "fst (openAiTransport emptyChatEnv demoWorld) = Inr ?empty"
    by code_simp
  have t2: "fst (openAiTransport blankChatEnv demoWorld) = Inr ?blank"
    by code_simp
  have e1: "extractOpenAIText ?empty = Inr []"
    by code_simp
  have e2: "extractOpenAIText ?blank = Inr []"
    by code_simp
  have two: "fetchCount (snd (processWithOpenAI emptyChatEnv ''um so like hello'' ''gpt-5'' demoWorld)) = 2"
    by code_simp
  from processWithOpenAI_empty_response [OF enter key1 t1 e1, of "''um so like hello''" "''gpt-5''"]
       processWithOpenAI_empty_response [OF enter key2 t2 e2, of "''um so like hello''" "''gpt-5''"]
       two
  show ?thesis by simp
qed

subsection \<open>Gemini token limit\<close>





subsection \<open>Prompt studio\<close>

text \<open>
  C10 (amended). For every call of \<open>testPrompt\<close> that reaches the test call, whether that
  call resolves or rejects and whatever it does to the storage: afterwards
  \<open>customUnifiedPrompt\<close> holds its value from before the call when that was a non-empty
  string, and is absent when it was absent or the empty string.
\<close>

theorem testPrompt_restores_prompt:
  assumes "testPromptGate s testText ls = Stage p m"
  shows "fst (testPrompt s testText editedPrompt (ls, v)) ''customUnifiedPrompt'' =
           (if ls ''customUnifiedPrompt'' = Some [] then None else ls ''customUnifiedPrompt'')"
proof -
  obtain shown ls' where r: "runTest s testText editedPrompt p m ls = (shown, ls')"
    by (cases "runTest s testText editedPrompt p m ls")
  have "ls' ''customUnifiedPrompt'' =
           (if ls ''customUnifiedPrompt'' = Some [] then None else ls ''customUnifiedPrompt'')"
  proof (cases "p = ''local''")
    case True
    obtain a b where c: "processLocalReasoning s testText m (ls(''customUnifiedPrompt'' \<mapsto> stringify s editedPrompt)) = (a, b)"
      by (cases "processLocalReasoning s testText m (ls(''customUnifiedPrompt'' \<mapsto> stringify s editedPrompt))")
    show ?thesis
      using r True c by (cases a; cases "ls ''customUnifiedPrompt''") (auto simp: runTest_def Let_def)
  next
    case False
    obtain a b where c: "processText s testText m (ls(''customUnifiedPrompt'' \<mapsto> stringify s editedPrompt)) = (a, b)"
      by (cases "processText s testText m (ls(''customUnifiedPrompt'' \<mapsto> stringify s editedPrompt))")
    show ?thesis
      using r False c by (cases a; cases "ls ''customUnifiedPrompt''") (auto simp: runTest_def Let_def)
  qed
  then show ?thesis
    using assms r by (simp add: testPrompt_def)
qed

lemma testPromptGate_demo:
  "testPromptGate demoStudio ''hello''
     [''reasoningModel'' \<mapsto> ''gpt-5'', ''customUnifiedPrompt'' \<mapsto> x] = Stage ''openai'' ''gpt-5''"
  by (simp add: testPromptGate_def demoStudio_def Let_def trim_def isWhiteSpace_def isWhiteSpace2_def isWhiteSpace3_def
      getModelProvider_def toLowerCase_def PROVIDER_CONFIG_def)

theorem testPrompt_restores_prompt_witness:
  "fst (testPrompt demoStudio ''hello'' ''Edited''
         ([''reasoningModel'' \<mapsto> ''gpt-5'', ''customUnifiedPrompt'' \<mapsto> ''saved''],
          \<lparr>isLoading = False, testResult = []\<rparr>)) ''customUnifiedPrompt'' = Some ''saved''"
  using testPrompt_restores_prompt
          [OF testPromptGate_demo [of "''saved''"], where editedPrompt = "''Edited''"
             and v = "\<lparr>isLoading = False, testResult = []\<rparr>"]
  by simp

text \<open>
  C10, as the code has it. The claim as stated fails for a stored prompt that is the empty
  string: \<open>if (currentCustomPrompt)\<close> is false for it, so the key that existed before the
  call is removed instead of restored.
\<close>

theorem testPrompt_empty_prompt_counterexample:
  "testPromptGate demoStudio ''hello''
     [''reasoningModel'' \<mapsto> ''gpt-5'', ''customUnifiedPrompt'' \<mapsto> []] = Stage ''openai'' ''gpt-5''
   \<and> [''reasoningModel'' \<mapsto> ''gpt-5'', ''customUnifiedPrompt'' \<mapsto> []] ''customUnifiedPrompt''
       = Some []
   \<and> fst (testPrompt demoStudio ''hello'' ''Edited''
            ([''reasoningModel'' \<mapsto> ''gpt-5'', ''customUnifiedPrompt'' \<mapsto> []],
             \<lparr>isLoading = False, testResult = []\<rparr>)) ''customUnifiedPrompt'' = None"
proof -
  have pt: "processText demoStudio = (\<lambda>t m ls. (Inr t, ls))"
    by (simp add: demoStudio_def)
  show ?thesis
    by (simp add: testPromptGate_demo testPrompt_def runTest_def pt)
qed

subsection \<open>In-flight guard\<close>

text \<open>Once the flag is set, a call is rejected at once: it returns the busy error and
  leaves the state, the request counter included, as it was.\<close>

lemma processWithOpenAI_busy:
  "isProcessing w \<Longrightarrow>
     processWithOpenAI e text model w = (Inl (Error ''Already processing a request''), w)"
  by (simp add: processWithOpenAI_def processWithOpenAI_enter_def)

lemma processWithGemini_busy:
  "isProcessing w \<Longrightarrow>
     processWithGemini e text model w = (Inl (Error ''Already processing a request''), w)"
  by (simp add: processWithGemini_def processWithGemini_enter_def)

text \<open>The local bridge sets its flag in the stretch that runs when the method is called,
  so a second call made while the first is pending is rejected.\<close>

lemma LocalReasoningService_rejects_overlap:
  assumes "REASONING_PROVIDER b = None \<or> REASONING_PROVIDER b = Some ''local''"
  shows "LocalReasoningService_enter b False = (Inr (), True)
       \<and> LocalReasoningService_enter b (snd (LocalReasoningService_enter b False))
           = (Inl (Error ''Already processing a request''), True)"
  using assms by (auto simp: LocalReasoningService_enter_def)

text \<open>
  C8, where the code departs from it. \<open>processWithOpenAI\<close> sets \<open>isProcessing\<close> only after
  \<open>await this.getApiKey(...)\<close>, so a second call made while the first awaits its key
  passes the guard: neither call gets the busy error and each sends its request.
\<close>

theorem processWithOpenAI_guard_window:
  "processWithOpenAI_enter
     (demoWorld\<lparr>openAiEndpointPreference := [''https://api.openai.com/v1'' \<mapsto> Chat]\<rparr>)
     = Inr OpenAI
   \<and> fst (overlappingOpenAICalls chatOnlyEnv ''one'' ''two'' ''gpt-5''
        (demoWorld\<lparr>openAiEndpointPreference := [''https://api.openai.com/v1'' \<mapsto> Chat]\<rparr>))
      = (Inr ''Hello world.'', Inr ''Hello world.'')
   \<and> fetchCount (snd (overlappingOpenAICalls chatOnlyEnv ''one'' ''two'' ''gpt-5''
        (demoWorld\<lparr>openAiEndpointPreference := [''https://api.openai.com/v1'' \<mapsto> Chat]\<rparr>))) = 2"
  by code_simp

end
